theory Spec2Isabelle
  imports Complex_Main
begin

text \<open>
  A verification of parts of RSGISLib: the terrain calculations on a 3x3 window
  (\<^verbatim>\<open>RSGISDEMTools.cpp\<close>: slope, aspect, hill shade, incidence and exitance angle, hole
  filling), the entry points of the statistics unit (\<^verbatim>\<open>RSGISImageStatistics.h\<close>) and the
  command wrappers of the image calibration (\<^verbatim>\<open>RSGISCmdImageCalibration.cpp\<close>). Each
  function of the source is a function here, under its name; a \<^verbatim>\<open>throw\<close> is a result
  \<open>Inl\<close>, a normal return a result \<open>Inr\<close>.
\<close>

section \<open>Numbers of the program\<close>

text \<open>
  The terrain calculations of \<^verbatim>\<open>RSGISDEMTools.cpp\<close> work on C++ \<^verbatim>\<open>float\<close> and
  \<^verbatim>\<open>double\<close> values and depend on the special values of that arithmetic: a flat
  area is marked with a NaN, every comparison with a NaN is false, a division by zero is
  not an error, a sum of \<^verbatim>\<open>float\<close> values that is too large is an infinity. The type
  \<open>cdouble\<close> holds the values of both C++ types: the special values and the finite
  values, which are real numbers. Its operators \<open>+\<close>, \<open>-\<close>, \<open>*\<close>, \<open>/\<close> are the arithmetic
  of \<^verbatim>\<open>double\<close>, taken to be exact on finite values: the rounding and the overflow of
  \<^verbatim>\<open>double\<close> are not represented, and \<^verbatim>\<open>M_PI\<close> is \<open>pi\<close>. The arithmetic of
  \<^verbatim>\<open>float\<close> and the conversion of a \<^verbatim>\<open>double\<close> to \<^verbatim>\<open>float\<close> do round and overflow;
  they are defined below (\<open>to_float\<close>, \<open>fadd\<close>, \<open>fsub\<close>, \<open>fmul\<close>, \<open>fdiv\<close>). Zero has
  no sign (a division by zero takes the divisor to be \<open>+0\<close>).
\<close>

datatype cdouble = Fin real | PInf | NInf | NaN

instantiation cdouble :: "{uminus, plus, minus, times, inverse, ord}"
begin

fun uminus_cdouble :: "cdouble \<Rightarrow> cdouble" where
  "uminus_cdouble (Fin a) = Fin (- a)"
| "uminus_cdouble PInf = NInf"
| "uminus_cdouble NInf = PInf"
| "uminus_cdouble NaN = NaN"

fun plus_cdouble :: "cdouble \<Rightarrow> cdouble \<Rightarrow> cdouble" where
  "plus_cdouble NaN y = NaN"
| "plus_cdouble x NaN = NaN"
| "plus_cdouble (Fin a) (Fin b) = Fin (a + b)"
| "plus_cdouble PInf NInf = NaN"
| "plus_cdouble NInf PInf = NaN"
| "plus_cdouble PInf y = PInf"
| "plus_cdouble x PInf = PInf"
| "plus_cdouble NInf y = NInf"
| "plus_cdouble x NInf = NInf"

definition minus_cdouble :: "cdouble \<Rightarrow> cdouble \<Rightarrow> cdouble" where
  "minus_cdouble x y = x + (- y)"

fun times_cdouble :: "cdouble \<Rightarrow> cdouble \<Rightarrow> cdouble" where
  "times_cdouble NaN y = NaN"
| "times_cdouble x NaN = NaN"
| "times_cdouble (Fin a) (Fin b) = Fin (a * b)"
| "times_cdouble (Fin a) PInf = (if a = 0 then NaN else if 0 < a then PInf else NInf)"
| "times_cdouble (Fin a) NInf = (if a = 0 then NaN else if 0 < a then NInf else PInf)"
| "times_cdouble PInf (Fin b) = (if b = 0 then NaN else if 0 < b then PInf else NInf)"
| "times_cdouble NInf (Fin b) = (if b = 0 then NaN else if 0 < b then NInf else PInf)"
| "times_cdouble PInf PInf = PInf"
| "times_cdouble PInf NInf = NInf"
| "times_cdouble NInf PInf = NInf"
| "times_cdouble NInf NInf = PInf"

fun divide_cdouble :: "cdouble \<Rightarrow> cdouble \<Rightarrow> cdouble" where
  "divide_cdouble NaN y = NaN"
| "divide_cdouble x NaN = NaN"
| "divide_cdouble (Fin a) (Fin b) =
     (if b = 0 then (if a = 0 then NaN else if 0 < a then PInf else NInf) else Fin (a / b))"
| "divide_cdouble (Fin a) PInf = Fin 0"
| "divide_cdouble (Fin a) NInf = Fin 0"
| "divide_cdouble PInf (Fin b) = (if 0 \<le> b then PInf else NInf)"
| "divide_cdouble NInf (Fin b) = (if 0 \<le> b then NInf else PInf)"
| "divide_cdouble PInf PInf = NaN"
| "divide_cdouble PInf NInf = NaN"
| "divide_cdouble NInf PInf = NaN"
| "divide_cdouble NInf NInf = NaN"

definition inverse_cdouble :: "cdouble \<Rightarrow> cdouble" where
  "inverse_cdouble x = divide (Fin 1) x"

fun less_cdouble :: "cdouble \<Rightarrow> cdouble \<Rightarrow> bool" where
  "less_cdouble NaN y = False"
| "less_cdouble x NaN = False"
| "less_cdouble (Fin a) (Fin b) = (a < b)"
| "less_cdouble x NInf = False"
| "less_cdouble PInf y = False"
| "less_cdouble NInf y = True"
| "less_cdouble x PInf = True"

definition less_eq_cdouble :: "cdouble \<Rightarrow> cdouble \<Rightarrow> bool" where
  "less_eq_cdouble x y = (x \<noteq> NaN \<and> y \<noteq> NaN \<and> (x < y \<or> x = y))"

instance ..

end

text \<open>The C++ operator \<^verbatim>\<open>==\<close> on floating values: a NaN is equal to nothing.\<close>

definition fp_eq :: "cdouble \<Rightarrow> cdouble \<Rightarrow> bool" where
  "fp_eq x y = (x \<noteq> NaN \<and> y \<noteq> NaN \<and> x = y)"

text \<open>\<^verbatim>\<open>boost::math::isnan\<close>.\<close>

definition isnan :: "cdouble \<Rightarrow> bool" where
  "isnan x = (x = NaN)"

text \<open>
  The functions of \<^verbatim>\<open><cmath>\<close> the program calls, with the values the C standard
  (annex F) gives them at the special values.
\<close>

fun fp_sqrt :: "cdouble \<Rightarrow> cdouble" where
  "fp_sqrt (Fin a) = (if a < 0 then NaN else Fin (sqrt a))"
| "fp_sqrt PInf = PInf"
| "fp_sqrt NInf = NaN"
| "fp_sqrt NaN = NaN"

fun fp_atan :: "cdouble \<Rightarrow> cdouble" where
  "fp_atan (Fin a) = Fin (arctan a)"
| "fp_atan PInf = Fin (pi / 2)"
| "fp_atan NInf = Fin (- (pi / 2))"
| "fp_atan NaN = NaN"

fun fp_sin :: "cdouble \<Rightarrow> cdouble" where
  "fp_sin (Fin a) = Fin (sin a)"
| "fp_sin x = NaN"

fun fp_cos :: "cdouble \<Rightarrow> cdouble" where
  "fp_cos (Fin a) = Fin (cos a)"
| "fp_cos x = NaN"

fun fp_acos :: "cdouble \<Rightarrow> cdouble" where
  "fp_acos (Fin a) = (if - 1 \<le> a \<and> a \<le> 1 then Fin (arccos a) else NaN)"
| "fp_acos x = NaN"

text \<open>The angle of the point \<open>(x, y)\<close>, in \<open>(-pi, pi]\<close>; \<open>0\<close> at the origin.\<close>

definition atan2_real :: "real \<Rightarrow> real \<Rightarrow> real" where
  "atan2_real y x =
     (if 0 < x then arctan (y / x)
      else if x < 0 then (if 0 \<le> y then arctan (y / x) + pi else arctan (y / x) - pi)
      else if 0 < y then pi / 2
      else if y < 0 then - (pi / 2)
      else 0)"

fun fp_atan2 :: "cdouble \<Rightarrow> cdouble \<Rightarrow> cdouble" where
  "fp_atan2 NaN x = NaN"
| "fp_atan2 y NaN = NaN"
| "fp_atan2 (Fin b) (Fin a) = Fin (atan2_real b a)"
| "fp_atan2 (Fin b) PInf = Fin 0"
| "fp_atan2 (Fin b) NInf = (if 0 \<le> b then Fin pi else Fin (- pi))"
| "fp_atan2 PInf (Fin a) = Fin (pi / 2)"
| "fp_atan2 NInf (Fin a) = Fin (- (pi / 2))"
| "fp_atan2 PInf PInf = Fin (pi / 4)"
| "fp_atan2 NInf PInf = Fin (- (pi / 4))"
| "fp_atan2 PInf NInf = Fin (3 * pi / 4)"
| "fp_atan2 NInf NInf = Fin (- (3 * pi / 4))"

definition M_PI :: cdouble where
  "M_PI = Fin pi"

subsection \<open>Single precision\<close>

text \<open>
  A \<^verbatim>\<open>float\<close> is an IEEE 754 binary32 value: a significand of 24 bits, exponents from
  \<open>-126\<close> to \<open>127\<close>, subnormal numbers below \<open>2 ^ -126\<close>. The result of an operation on
  \<^verbatim>\<open>float\<close> operands, and of the conversion of a \<^verbatim>\<open>double\<close> to \<^verbatim>\<open>float\<close>, is the exact
  result rounded to the nearest such value, a tie going to the value with an even
  significand; a result of magnitude \<open>2 ^ 128 - 2 ^ 103\<close> or more (half a unit in the
  last place above the largest finite value, \<open>2 ^ 128 - 2 ^ 104\<close>) becomes an infinity.
\<close>

definition pow2 :: "int \<Rightarrow> real" where
  "pow2 i = (if 0 \<le> i then 2 ^ nat i else 1 / 2 ^ nat (- i))"

text \<open>The integer nearest to \<open>q\<close>, the even one of the two when \<open>q\<close> is half way.\<close>

definition rint :: "real \<Rightarrow> int" where
  "rint q = (let f = \<lfloor>q\<rfloor>; d = q - of_int f
             in if d < 1 / 2 then f else if 1 / 2 < d then f + 1
                else if even f then f else f + 1)"

text \<open>The exponent of the binade of \<open>x\<close>, not below that of the subnormal numbers.\<close>

definition float_exponent :: "real \<Rightarrow> int" where
  "float_exponent x = max \<lfloor>log 2 \<bar>x\<bar>\<rfloor> (- 126)"

text \<open>Rounding to a multiple of the unit in the last place, \<open>2 ^ (e - 23)\<close>.\<close>

definition float_round_real :: "real \<Rightarrow> real" where
  "float_round_real x =
     (if x = 0 then 0
      else let u = pow2 (float_exponent x - 23) in of_int (rint (x / u)) * u)"

fun to_float :: "cdouble \<Rightarrow> cdouble" where
  "to_float (Fin x) =
     (if 2 ^ 128 - 2 ^ 103 \<le> \<bar>x\<bar> then (if 0 < x then PInf else NInf)
      else Fin (float_round_real x))"
| "to_float PInf = PInf"
| "to_float NInf = NInf"
| "to_float NaN = NaN"

text \<open>The operators \<^verbatim>\<open>+\<close>, \<^verbatim>\<open>-\<close>, \<^verbatim>\<open>*\<close>, \<^verbatim>\<open>/\<close> on two \<^verbatim>\<open>float\<close> operands.\<close>

definition fadd :: "cdouble \<Rightarrow> cdouble \<Rightarrow> cdouble" where
  "fadd a b = to_float (a + b)"

definition fsub :: "cdouble \<Rightarrow> cdouble \<Rightarrow> cdouble" where
  "fsub a b = to_float (a - b)"

definition fmul :: "cdouble \<Rightarrow> cdouble \<Rightarrow> cdouble" where
  "fmul a b = to_float (a * b)"

definition fdiv :: "cdouble \<Rightarrow> cdouble \<Rightarrow> cdouble" where
  "fdiv a b = to_float (a / b)"

text \<open>
  The conversion of an \<^verbatim>\<open>int\<close> to \<^verbatim>\<open>unsigned int\<close>, which the comparison
  \<^verbatim>\<open>band < numBands\<close> of an \<^verbatim>\<open>unsigned int\<close> with an \<^verbatim>\<open>int\<close> applies to its
  right-hand side.
\<close>

definition uint_of_int :: "int \<Rightarrow> nat" where
  "uint_of_int n = nat (n mod 2 ^ 32)"

section \<open>Exceptions\<close>

datatype exn =
    RSGISImageCalcException string
  | RSGISImageException string
  | RSGISException string
  | RSGISCmdException string

text \<open>\<^verbatim>\<open>e.what()\<close>\<close>

fun what :: "exn \<Rightarrow> string" where
  "what (RSGISImageCalcException m) = m"
| "what (RSGISImageException m) = m"
| "what (RSGISException m) = m"
| "what (RSGISCmdException m) = m"

section \<open>Terrain calculations on a window (RSGISDEMTools.cpp)\<close>

text \<open>
  \<^verbatim>\<open>float ***dataBlock\<close> is indexed by band, row and column; \<^verbatim>\<open>float *output\<close> is the
  vector of output bands of the centre pixel: a \<^verbatim>\<open>double\<close> stored in it is converted
  to \<^verbatim>\<open>float\<close>. A read outside the window has no defined value in the source, and none
  here: nothing is proved about it.
\<close>

type_synonym dataBlock = "cdouble list list list"

definition px :: "dataBlock \<Rightarrow> nat \<Rightarrow> nat \<Rightarrow> nat \<Rightarrow> cdouble" where
  "px dataBlock b i j = dataBlock ! b ! i ! j"

text \<open>
  The members every terrain unit has. The resolutions and the angles of the units are
  \<^verbatim>\<open>float\<close> values, as the parameters of the constructors are. Each unit computes the
  gradients of the window with the same text; they are defined once for each of the three
  forms the source has (slope, aspect, hill shade). The pixels are added, subtracted and
  divided by the resolution as \<^verbatim>\<open>float\<close> values, from left to right, before the result
  is assigned to a \<^verbatim>\<open>double\<close>.
\<close>

record terrain_unit =
  band :: nat
  ewRes :: cdouble
  nsRes :: cdouble

record RSGISCalcSlope = terrain_unit +
  outType :: int

text \<open>The two gradients of the slope, as the source computes them.\<close>

definition slope_dx :: "'a terrain_unit_scheme \<Rightarrow> dataBlock \<Rightarrow> cdouble" where
  "slope_dx self dataBlock =
     (let p = px dataBlock (band self)
      in fdiv (fsub (fadd (fadd (fadd (p 0 0) (p 1 0)) (p 1 0)) (p 2 0))
                    (fadd (fadd (fadd (p 0 2) (p 1 2)) (p 1 2)) (p 2 2)))
              (ewRes self))"

definition slope_dy :: "'a terrain_unit_scheme \<Rightarrow> dataBlock \<Rightarrow> cdouble" where
  "slope_dy self dataBlock =
     (let p = px dataBlock (band self)
      in fdiv (fsub (fadd (fadd (fadd (p 2 0) (p 2 1)) (p 2 1)) (p 2 2))
                    (fadd (fadd (fadd (p 0 0) (p 0 1)) (p 0 1)) (p 0 2)))
              (nsRes self))"

definition RSGISCalcSlope_calcImageValue ::
  "RSGISCalcSlope \<Rightarrow> dataBlock \<Rightarrow> int \<Rightarrow> int \<Rightarrow> cdouble list \<Rightarrow> exn + cdouble list" where
  "RSGISCalcSlope_calcImageValue self dataBlock numBands winSize output =
     (if winSize \<noteq> 3 then
        Inl (RSGISImageCalcException ''Window size must be equal to 3 for the calculate of slope.'')
      else if \<not> (band self < uint_of_int numBands) then
        Inl (RSGISImageCalcException ''Specified image band is not within the image.'')
      else
        let radiansToDegrees = Fin 180 / M_PI;
            dx = slope_dx self dataBlock;
            dy = slope_dy self dataBlock;
            slopeRad = fp_atan (fp_sqrt ((dx * dx) + (dy * dy)) / Fin 8)
        in if outType self = 0 then Inr (output[0 := to_float (slopeRad * radiansToDegrees)])
           else Inr (output[0 := to_float slopeRad]))"

type_synonym RSGISCalcAspect = terrain_unit

text \<open>The two gradients of the aspect, as the source computes them.\<close>

definition aspect_dx :: "'a terrain_unit_scheme \<Rightarrow> dataBlock \<Rightarrow> cdouble" where
  "aspect_dx self dataBlock =
     (let p = px dataBlock (band self)
      in fdiv (fsub (fadd (fadd (fadd (p 0 2) (p 1 2)) (p 1 2)) (p 2 2))
                    (fadd (fadd (fadd (p 0 0) (p 1 0)) (p 1 0)) (p 2 0)))
              (ewRes self))"

definition aspect_dy :: "'a terrain_unit_scheme \<Rightarrow> dataBlock \<Rightarrow> cdouble" where
  "aspect_dy self dataBlock =
     (let p = px dataBlock (band self)
      in fdiv (fsub (fadd (fadd (fadd (p 2 0) (p 2 1)) (p 2 1)) (p 2 2))
                    (fadd (fadd (fadd (p 0 0) (p 0 1)) (p 0 1)) (p 0 2)))
              (nsRes self))"

definition RSGISCalcAspect_calcImageValue ::
  "RSGISCalcAspect \<Rightarrow> dataBlock \<Rightarrow> int \<Rightarrow> int \<Rightarrow> cdouble list \<Rightarrow> exn + cdouble list" where
  "RSGISCalcAspect_calcImageValue self dataBlock numBands winSize output =
     (if winSize \<noteq> 3 then
        Inl (RSGISImageCalcException ''Window size must be equal to 3 for the calculate of slope.'')
      else if \<not> (band self < uint_of_int numBands) then
        Inl (RSGISImageCalcException ''Specified image band is not within the image.'')
      else
        let radiansToDegrees = Fin 180 / M_PI;
            dx = aspect_dx self dataBlock;
            dy = aspect_dy self dataBlock;
            aspect = fp_atan2 (- dx) dy * radiansToDegrees;
            aspect = (if fp_eq dx (Fin 0) \<and> fp_eq dy (Fin 0) then NaN else aspect);
            aspect = (if aspect < Fin 0 then aspect + Fin 360 else aspect);
            aspect = (if fp_eq aspect (Fin 360) then Fin 0 else aspect)
        in Inr (output[0 := to_float aspect]))"

record RSGISCalcHillShade = terrain_unit +
  sunZenith :: cdouble
  sunAzimuth :: cdouble

text \<open>The two gradients of the hill shade, as the source computes them.\<close>

definition hillshade_dx :: "'a terrain_unit_scheme \<Rightarrow> dataBlock \<Rightarrow> cdouble" where
  "hillshade_dx self dataBlock =
     (let p = px dataBlock (band self)
      in fdiv (fsub (fadd (fadd (fadd (p 0 2) (p 1 2)) (p 1 2)) (p 2 2))
                    (fadd (fadd (fadd (p 0 0) (p 1 0)) (p 1 0)) (p 2 0)))
              (fmul (ewRes self) (Fin 8)))"

definition hillshade_dy :: "'a terrain_unit_scheme \<Rightarrow> dataBlock \<Rightarrow> cdouble" where
  "hillshade_dy self dataBlock =
     (let p = px dataBlock (band self)
      in fdiv (fsub (fadd (fadd (fadd (p 0 0) (p 0 1)) (p 0 1)) (p 0 2))
                    (fadd (fadd (fadd (p 2 0) (p 2 1)) (p 2 1)) (p 2 2)))
              (fmul (nsRes self) (Fin 8)))"

definition RSGISCalcHillShade_calcImageValue ::
  "RSGISCalcHillShade \<Rightarrow> dataBlock \<Rightarrow> int \<Rightarrow> int \<Rightarrow> cdouble list \<Rightarrow> exn + cdouble list" where
  "RSGISCalcHillShade_calcImageValue self dataBlock numBands winSize output =
     (if winSize \<noteq> 3 then
        Inl (RSGISImageCalcException ''Window size must be equal to 3 for the calculate of slope.'')
      else if \<not> (band self < uint_of_int numBands) then
        Inl (RSGISImageCalcException ''Specified image band is not within the image.'')
      else
        let degreesToRadians = M_PI / Fin 180;
            dx = hillshade_dx self dataBlock;
            dy = hillshade_dy self dataBlock;
            xx_plus_yy = dx * dx + dy * dy;
            aspect = fp_atan2 dy dx;
            cang = (fp_sin (sunZenith self * degreesToRadians) -
                    fp_cos (sunZenith self * degreesToRadians) * fp_sqrt xx_plus_yy *
                    fp_sin (aspect - (sunAzimuth self - M_PI / Fin 2 * degreesToRadians))) /
                   fp_sqrt (Fin 1 + Fin 1 * xx_plus_yy);
            cang = (if cang \<le> Fin 0 then Fin 1 else Fin 1 + (Fin 254 * cang))
        in Inr (output[0 := to_float cang]))"

text \<open>
  The shade angle in the words of the specification: the sine of the aspect minus the
  literal sun azimuth term \<^verbatim>\<open>sunAzimuth - M_PI/2 * degreesToRadians\<close>, in which
  \<^verbatim>\<open>M_PI/2\<close> is multiplied by the factor from degrees to radians before the subtraction.
\<close>

definition shade_angle_literal :: "cdouble \<Rightarrow> cdouble \<Rightarrow> cdouble" where
  "shade_angle_literal asp azimuth =
     fp_sin (asp - (azimuth - (M_PI / Fin 2) * (M_PI / Fin 180)))"

text \<open>
  The incidence and the exitance angle are computed by the same text in the source, once
  with the sun's and once with the viewer's zenith and azimuth: \<open>ray_angle\<close> is the value
  of \<^verbatim>\<open>acos((pA*rA)+(pB*rB)+(pC*rC)) * radiansToDegrees\<close> for a ray of the given zenith
  and azimuth, a \<^verbatim>\<open>double\<close>. The units assign it to the \<^verbatim>\<open>float\<close> variable
  \<^verbatim>\<open>outputValue\<close> before they test it with \<^verbatim>\<open>isnan\<close>.
\<close>

definition ray_angle :: "'a terrain_unit_scheme \<Rightarrow> dataBlock \<Rightarrow> cdouble \<Rightarrow> cdouble \<Rightarrow> cdouble" where
  "ray_angle self dataBlock zenith azimuth =
     (let degreesToRadians = M_PI / Fin 180;
          radiansToDegrees = Fin 180 / M_PI;
          dxSlope = slope_dx self dataBlock;
          dySlope = slope_dy self dataBlock;
          slopeRad = fp_atan (fp_sqrt ((dxSlope * dxSlope) + (dySlope * dySlope)) / Fin 8);
          slope = slopeRad * radiansToDegrees;
          dxAspect = aspect_dx self dataBlock;
          dyAspect = aspect_dy self dataBlock;
          aspect = fp_atan2 (- dxAspect) dyAspect * radiansToDegrees;
          aspect = (if fp_eq dxAspect (Fin 0) \<and> fp_eq dyAspect (Fin 0) then NaN else aspect);
          aspect = (if aspect < Fin 0 then aspect + Fin 360 else aspect);
          aspect = (if fp_eq aspect (Fin 360) then Fin 0 else aspect);
          pA = fp_sin (slope * degreesToRadians) * fp_cos (aspect * degreesToRadians);
          pB = fp_sin (slope * degreesToRadians) * fp_sin (aspect * degreesToRadians);
          pC = fp_cos (slope * degreesToRadians);
          rA = fp_sin (zenith * degreesToRadians) * fp_cos (azimuth * degreesToRadians);
          rB = fp_sin (zenith * degreesToRadians) * fp_sin (azimuth * degreesToRadians);
          rC = fp_cos (zenith * degreesToRadians)
      in fp_acos ((pA * rA) + (pB * rB) + (pC * rC)) * radiansToDegrees)"

type_synonym RSGISCalcRayIncidentAngle = RSGISCalcHillShade

definition RSGISCalcRayIncidentAngle_calcImageValue ::
  "RSGISCalcRayIncidentAngle \<Rightarrow> dataBlock \<Rightarrow> int \<Rightarrow> int \<Rightarrow> cdouble list \<Rightarrow> exn + cdouble list" where
  "RSGISCalcRayIncidentAngle_calcImageValue self dataBlock numBands winSize output =
     (if winSize \<noteq> 3 then
        Inl (RSGISImageCalcException ''Window size must be equal to 3 for the calculate of slope.'')
      else if \<not> (band self < uint_of_int numBands) then
        Inl (RSGISImageCalcException ''Specified image band is not within the image.'')
      else
        let outputValue = to_float (ray_angle self dataBlock (sunZenith self) (sunAzimuth self));
            outputValue = (if isnan outputValue then sunZenith self else outputValue)
        in Inr (output[0 := outputValue]))"

record RSGISCalcRayExitanceAngle = terrain_unit +
  viewZenith :: cdouble
  viewAzimuth :: cdouble

definition RSGISCalcRayExitanceAngle_calcImageValue ::
  "RSGISCalcRayExitanceAngle \<Rightarrow> dataBlock \<Rightarrow> int \<Rightarrow> int \<Rightarrow> cdouble list \<Rightarrow> exn + cdouble list" where
  "RSGISCalcRayExitanceAngle_calcImageValue self dataBlock numBands winSize output =
     (if winSize \<noteq> 3 then
        Inl (RSGISImageCalcException ''Window size must be equal to 3 for the calculate of slope.'')
      else if \<not> (band self < uint_of_int numBands) then
        Inl (RSGISImageCalcException ''Specified image band is not within the image.'')
      else
        let outputValue = to_float (ray_angle self dataBlock (viewZenith self) (viewAzimuth self));
            outputValue = (if isnan outputValue then Fin 0 else outputValue)
        in Inr (output[0 := outputValue]))"

subsection \<open>Filling the holes of a DEM\<close>

text \<open>
  The constructor passes \<open>3\<close> to the base class as the number of output bands and sets
  \<^verbatim>\<open>holeValue\<close> and \<^verbatim>\<open>nodata\<close>; it does not set \<^verbatim>\<open>change\<close>, whose first value is
  therefore whatever the object's memory holds (the last argument here).
\<close>

record RSGISFillDEMHoles =
  numOutBands :: int
  holeValue :: cdouble
  nodata :: cdouble
  change :: bool

definition RSGISFillDEMHoles_new :: "cdouble \<Rightarrow> cdouble \<Rightarrow> bool \<Rightarrow> RSGISFillDEMHoles" where
  "RSGISFillDEMHoles_new hole nd indeterminate =
     \<lparr>numOutBands = 3, holeValue = hole, nodata = nd, change = indeterminate\<rparr>"

text \<open>
  The call returns the output vector and the object as it leaves them. The window is read
  at its centre, \<^verbatim>\<open>floor(((float)winSize)/2.0)\<close>, which is an index of the window for every
  window size from 1.
\<close>

definition RSGISFillDEMHoles_calcImageValue ::
  "RSGISFillDEMHoles \<Rightarrow> dataBlock \<Rightarrow> int \<Rightarrow> int \<Rightarrow> cdouble list
     \<Rightarrow> exn + cdouble list \<times> RSGISFillDEMHoles" where
  "RSGISFillDEMHoles_calcImageValue self dataBlock numBands winSize output =
     (if numBands \<noteq> numOutBands self then
        Inl (RSGISImageCalcException ''There should be 3 input and 3 output image bands.'')
      else
        let midPoint = nat \<lfloor>real_of_int winSize / 2\<rfloor>
        in if fp_eq (px dataBlock 0 midPoint midPoint) (holeValue self) then Inr (output, self)
           else Inr (output[0 := px dataBlock 0 midPoint midPoint,
                            1 := px dataBlock 1 midPoint midPoint,
                            2 := px dataBlock 2 midPoint midPoint], self))"

definition changeOccurred :: "RSGISFillDEMHoles \<Rightarrow> bool" where
  "changeOccurred self = change self"

definition resetChange :: "RSGISFillDEMHoles \<Rightarrow> RSGISFillDEMHoles" where
  "resetChange self = self\<lparr>change := False\<rparr>"

section \<open>The statistics unit (RSGISImageStatistics.h)\<close>

text \<open>
  \<^verbatim>\<open>RSGISCalcImageStatistics\<close> overrides ten entry points of the calculation interface.
  One of them, \<^verbatim>\<open>calcImageValue(float *bandValues, int numBands)\<close>, is only declared in
  the header, its body being defined elsewhere; the body of each of the other nine is a
  single \<^verbatim>\<open>throw\<close>, written in the header. A call names the entry point and carries its
  arguments.
\<close>

record OGREnvelope =
  MinX :: cdouble
  MaxX :: cdouble
  MinY :: cdouble
  MaxY :: cdouble

datatype calc_call =
    BandValues_Output "cdouble list" int "cdouble list"
  | BandValues "cdouble list" int
  | IntFloat "int list" nat "cdouble list" nat
  | IntFloat_Output "int list" nat "cdouble list" nat "cdouble list"
  | IntFloat_Extent "int list" nat "cdouble list" nat OGREnvelope
  | BandValues_Extent "cdouble list" int OGREnvelope
  | BandValues_Output_Extent "cdouble list" int "cdouble list" OGREnvelope
  | Window_Output dataBlock int int "cdouble list"
  | Window_Output_Extent dataBlock int int "cdouble list" OGREnvelope
  | Window_Condition dataBlock int int "cdouble list"

text \<open>
  What a call gives back when it returns: the unit's accumulators, the output vector
  where the entry point has one, and the truth value of \<^verbatim>\<open>calcImageValueCondition\<close>.
\<close>

record 'st calc_return =
  unit_state :: 'st
  output_written :: "cdouble list option"
  condition :: "bool option"

text \<open>
  The first argument stands for the body of the one entry point that has one: it updates
  the accumulators or throws.
\<close>

fun RSGISCalcImageStatistics_call ::
  "('st \<Rightarrow> cdouble list \<Rightarrow> int \<Rightarrow> exn + 'st) \<Rightarrow> 'st \<Rightarrow> calc_call \<Rightarrow> exn + 'st calc_return" where
  "RSGISCalcImageStatistics_call body st (BandValues_Output bandValues numBands output) =
     Inl (RSGISImageCalcException ''Not implemented'')"
| "RSGISCalcImageStatistics_call body st (BandValues bandValues numBands) =
     (case body st bandValues numBands of
        Inl e \<Rightarrow> Inl e
      | Inr st' \<Rightarrow> Inr \<lparr>unit_state = st', output_written = None, condition = None\<rparr>)"
| "RSGISCalcImageStatistics_call body st (IntFloat intBandValues numIntVals floatBandValues numfloatVals) =
     Inl (RSGISImageCalcException ''Not implemented'')"
| "RSGISCalcImageStatistics_call body st
       (IntFloat_Output intBandValues numIntVals floatBandValues numfloatVals output) =
     Inl (RSGISImageCalcException ''Not implemented'')"
| "RSGISCalcImageStatistics_call body st
       (IntFloat_Extent intBandValues numIntVals floatBandValues numfloatVals extent) =
     Inl (RSGISImageCalcException ''Not implemented'')"
| "RSGISCalcImageStatistics_call body st (BandValues_Extent bandValues numBands extent) =
     Inl (RSGISImageCalcException ''Not implemented'')"
| "RSGISCalcImageStatistics_call body st (BandValues_Output_Extent bandValues numBands output extent) =
     Inl (RSGISImageCalcException ''Not implemented'')"
| "RSGISCalcImageStatistics_call body st (Window_Output dataBlock numBands winSize output) =
     Inl (RSGISImageCalcException ''Not implemented'')"
| "RSGISCalcImageStatistics_call body st (Window_Output_Extent dataBlock numBands winSize output extent) =
     Inl (RSGISImageCalcException ''No implemented'')"
| "RSGISCalcImageStatistics_call body st (Window_Condition dataBlock numBands winSize output) =
     Inl (RSGISImageCalcException ''Not implemented'')"

text \<open>The entry points the unit supports: the one whose body is not a \<^verbatim>\<open>throw\<close>.\<close>

fun supported :: "calc_call \<Rightarrow> bool" where
  "supported (BandValues bandValues numBands) = True"
| "supported c = False"

section \<open>Command wrappers (RSGISCmdImageCalibration.cpp)\<close>

text \<open>
  The wrappers open raster files through GDAL, check the configuration against them, run
  the calculation engine and close the files. The files are a map from a path to what GDAL
  reports of the image (no entry: \<^verbatim>\<open>GDALOpen\<close> returns \<^verbatim>\<open>NULL\<close>). Each wrapper returns
  its result, an exception or nothing, together with the trace of what it did to the
  outside: the handles it opened and closed and the runs of the engine, which is when
  output pixels are written. The engine itself (\<^verbatim>\<open>RSGISCalcImage::calcImage\<close>) is an
  argument: given the paths of the input datasets and of the output image it tells which
  exception the run throws, if any.
\<close>

datatype GDALDataType =
    GDT_Unknown | GDT_Byte | GDT_UInt16 | GDT_Int16 | GDT_UInt32 | GDT_Int32
  | GDT_Float32 | GDT_Float64 | GDT_CInt16 | GDT_CInt32 | GDT_CFloat32 | GDT_CFloat64

record gdal_image =
  RasterCount :: nat
  RasterDataType :: GDALDataType

type_synonym gdal_files = "string \<rightharpoonup> gdal_image"

datatype event = GDALOpen string | GDALClose string | CalcImage "string list" string

type_synonym engine = "string list \<Rightarrow> string \<Rightarrow> exn option"

text \<open>The handles a trace leaves open: opened and not closed since.\<close>

fun track_handles :: "string list \<Rightarrow> event list \<Rightarrow> string list" where
  "track_handles hs [] = hs"
| "track_handles hs (GDALOpen p # tr) = track_handles (hs @ [p]) tr"
| "track_handles hs (GDALClose p # tr) = track_handles (remove1 p hs) tr"
| "track_handles hs (CalcImage ds out # tr) = track_handles hs tr"

definition open_handles :: "event list \<Rightarrow> string list" where
  "open_handles tr = track_handles [] tr"


record LandsatRadianceGainsOffsets =
  band :: nat
  lMax :: cdouble
  lMin :: cdouble
  qCalMax :: cdouble
  qCalMin :: cdouble

record CmdsLandsatRadianceGainsOffsets = LandsatRadianceGainsOffsets +
  imagePath :: string
  bandName :: string

text \<open>
  The loop of \<^verbatim>\<open>executeConvertLandsat2Radiance\<close> over the band specifications, with the
  running \<^verbatim>\<open>totalNumRasterBands\<close>, the array \<^verbatim>\<open>lsRadGainOffs\<close> filled so far and the
  trace. The arithmetic is that of \<^verbatim>\<open>unsigned int\<close>.
\<close>

fun executeConvertLandsat2Radiance_loop ::
  "gdal_files \<Rightarrow> CmdsLandsatRadianceGainsOffsets list \<Rightarrow> nat \<Rightarrow> LandsatRadianceGainsOffsets list
     \<Rightarrow> event list \<Rightarrow> (exn + LandsatRadianceGainsOffsets list) \<times> event list" where
  "executeConvertLandsat2Radiance_loop files [] totalNumRasterBands lsRadGainOffs tr =
     (Inr lsRadGainOffs, tr)"
| "executeConvertLandsat2Radiance_loop files (iterBands # rest) totalNumRasterBands lsRadGainOffs tr =
     (case files (imagePath iterBands) of
        None \<Rightarrow> (Inl (RSGISImageException (''Could not open image '' @ imagePath iterBands)), tr)
      | Some dataset \<Rightarrow>
          let tr = tr @ [GDALOpen (imagePath iterBands)];
              numRasterBands = RasterCount dataset
          in if band iterBands > numRasterBands then
               (Inl (RSGISImageException ''You have specified a band which is not within the image''), tr)
             else
               executeConvertLandsat2Radiance_loop files rest
                 ((totalNumRasterBands + numRasterBands) mod 2 ^ 32)
                 (lsRadGainOffs @
                    [\<lparr>band = (totalNumRasterBands + band iterBands + (2 ^ 32 - 1)) mod 2 ^ 32,
                      lMax = lMax iterBands, lMin = lMin iterBands,
                      qCalMax = qCalMax iterBands, qCalMin = qCalMin iterBands\<rparr>])
                 tr)"

definition executeConvertLandsat2Radiance ::
  "gdal_files \<Rightarrow> engine \<Rightarrow> string \<Rightarrow> string \<Rightarrow> CmdsLandsatRadianceGainsOffsets list
     \<Rightarrow> (exn + unit) \<times> event list" where
  "executeConvertLandsat2Radiance files calcImage outputImage gdalFormat landsatRadGainOffs =
     (case executeConvertLandsat2Radiance_loop files landsatRadGainOffs 0 [] [] of
        (Inl e, tr) \<Rightarrow> (Inl (RSGISCmdException (what e)), tr)
      | (Inr lsRadGainOffs, tr) \<Rightarrow>
          let datasets = map imagePath landsatRadGainOffs;
              tr = tr @ [CalcImage datasets outputImage]
          in (case calcImage datasets outputImage of
                Some e \<Rightarrow> (Inl (RSGISCmdException (what e)), tr)
              | None \<Rightarrow> (Inr (), tr @ map GDALClose datasets)))"

text \<open>
  Of the arguments of \<^verbatim>\<open>executeConvertRadiance2TOARefl\<close> the ones that decide what is
  opened, checked and closed are kept; the date and the solar geometry only reach the
  calculation unit.
\<close>

definition executeConvertRadiance2TOARefl ::
  "gdal_files \<Rightarrow> engine \<Rightarrow> string \<Rightarrow> string \<Rightarrow> nat \<Rightarrow> (exn + unit) \<times> event list" where
  "executeConvertRadiance2TOARefl files calcImage inputImage outputImage numBands =
     (case files inputImage of
        None \<Rightarrow> (Inl (RSGISCmdException (''Could not open image '' @ inputImage)), [])
      | Some dataset \<Rightarrow>
          let tr = [GDALOpen inputImage];
              numRasterBands = RasterCount dataset
          in if numBands \<noteq> numRasterBands then
               (Inl (RSGISCmdException
                  ''The number of input image bands and solar irradiance values are different.''),
                tr @ [GDALClose inputImage])
             else
               let tr = tr @ [CalcImage [inputImage] outputImage]
               in (case calcImage [inputImage] outputImage of
                     Some e \<Rightarrow> (Inl (RSGISCmdException (what e)), tr)
                   | None \<Rightarrow> (Inr (), tr @ [GDALClose inputImage])))"

text \<open>
  \<^verbatim>\<open>executeLandsatTMCloudFMask\<close> opens its four input images and checks them before the
  masking passes start. The passes (which create, fill and close seven more datasets of
  their own) are the argument \<open>passes\<close>: the exception they throw, if any. The reflectance
  image is taken to have a first band, whose data type is read. In the source the four
  calls of \<^verbatim>\<open>GDALClose\<close> in the branch of the band count check stand after its
  \<^verbatim>\<open>throw\<close>, so that branch closes nothing.
\<close>

definition executeLandsatTMCloudFMask ::
  "gdal_files \<Rightarrow> exn option \<Rightarrow> string \<Rightarrow> string \<Rightarrow> string \<Rightarrow> string \<Rightarrow> string
     \<Rightarrow> (exn + unit) \<times> event list" where
  "executeLandsatTMCloudFMask files passes inputTOAImage inputThermalImage inputSaturateImage
       validImg outputImage =
     (case files inputTOAImage of
        None \<Rightarrow> (Inl (RSGISCmdException (''Could not open image '' @ inputTOAImage)), [])
      | Some reflDataset \<Rightarrow>
     let tr = [GDALOpen inputTOAImage];
         numReflBands = RasterCount reflDataset;
         imgReflDT = RasterDataType reflDataset
     in if imgReflDT = GDT_Float32 \<or> imgReflDT = GDT_Float64 \<or> imgReflDT = GDT_Unknown \<or>
           imgReflDT = GDT_CInt16 \<or> imgReflDT = GDT_CInt32 \<or> imgReflDT = GDT_CFloat32 \<or>
           imgReflDT = GDT_CFloat64 then
          (Inl (RSGISCmdException ''Input TOA image must be of an integer data type.''), tr)
        else
     (case files inputThermalImage of
        None \<Rightarrow> (Inl (RSGISCmdException (''Could not open image '' @ inputThermalImage)), tr)
      | Some thermDataset \<Rightarrow>
     let tr = tr @ [GDALOpen inputThermalImage];
         numThermBands = RasterCount thermDataset
     in
     (case files inputSaturateImage of
        None \<Rightarrow> (Inl (RSGISCmdException (''Could not open image '' @ inputSaturateImage)), tr)
      | Some saturateDataset \<Rightarrow>
     let tr = tr @ [GDALOpen inputSaturateImage];
         numSaturateBands = RasterCount saturateDataset
     in
     (case files validImg of
        None \<Rightarrow> (Inl (RSGISCmdException (''Could not open image '' @ validImg)), tr)
      | Some validAreaDataset \<Rightarrow>
     let tr = tr @ [GDALOpen validImg]
     in if (numReflBands + numThermBands) mod 2 ^ 32 \<noteq> numSaturateBands then
          (Inl (RSGISCmdException
             ''The number of saturation bands is not equal to the number of refl and thermal bands.''),
           tr)
        else
          let tr = tr @ [CalcImage [inputTOAImage, inputThermalImage, inputSaturateImage] outputImage]
          in (case passes of
                Some e \<Rightarrow> (Inl (RSGISCmdException (what e)), tr)
              | None \<Rightarrow>
                  (Inr (), tr @ [GDALClose inputTOAImage, GDALClose inputThermalImage,
                                 GDALClose inputSaturateImage, GDALClose validImg]))))))"

section \<open>Facts about the numbers\<close>

lemma Fin_minus [simp]: "Fin a - Fin b = Fin (a - b)"
  by (simp add: minus_cdouble_def)

lemma Fin_le [simp]: "(Fin a \<le> Fin b) = (a \<le> b)"
  by (auto simp: less_eq_cdouble_def)

lemma uminus_eq_NaN: "(- x = NaN) = (x = (NaN::cdouble))"
  by (cases x) auto

lemma zero_div: "r \<noteq> Fin 0 \<Longrightarrow> r \<noteq> NaN \<Longrightarrow> Fin 0 / r = Fin 0"
  by (cases r) auto

lemma atan2_real_range: "- pi < atan2_real y x \<and> atan2_real y x \<le> pi"
proof -
  have b: "- (pi / 2) < arctan (y / x)" "arctan (y / x) < pi / 2"
    by (rule arctan_lbound, rule arctan_ubound)
  consider "0 < x" | "x < 0" "0 \<le> y" | "x < 0" "y < 0" | "x = 0" by linarith
  then show ?thesis
  proof cases
    case 1
    then have "atan2_real y x = arctan (y / x)" by (simp add: atan2_real_def)
    with b pi_gt_zero show ?thesis by linarith
  next
    case 2
    then have "y / x \<le> 0" by (simp add: divide_nonneg_neg)
    then have "arctan (y / x) \<le> 0" by (simp add: arctan_le_zero_iff)
    moreover from 2 have "atan2_real y x = arctan (y / x) + pi" by (simp add: atan2_real_def)
    ultimately show ?thesis using b pi_gt_zero by linarith
  next
    case 3
    then have "0 < y / x" by (simp add: divide_neg_neg)
    then have "0 < arctan (y / x)" by (simp add: zero_less_arctan_iff)
    moreover from 3 have "atan2_real y x = arctan (y / x) - pi" by (simp add: atan2_real_def)
    ultimately show ?thesis using b pi_gt_zero by linarith
  next
    case 4
    then show ?thesis using pi_gt_zero by (simp add: atan2_real_def; linarith)
  qed
qed

text \<open>\<^verbatim>\<open>atan2\<close> of two arguments that are not NaN is a finite angle between \<open>-pi\<close> and \<open>pi\<close>.\<close>

lemma fp_atan2_range:
  assumes "y \<noteq> NaN" and "x \<noteq> NaN"
  shows "case fp_atan2 y x of Fin t \<Rightarrow> - pi \<le> t \<and> t \<le> pi | _ \<Rightarrow> False"
proof (cases y)
  case (Fin b)
  show ?thesis
  proof (cases x)
    case (Fin a)
    with \<open>y = Fin b\<close> atan2_real_range[of b a] show ?thesis by simp
  next
    case PInf
    with \<open>y = Fin b\<close> pi_gt_zero show ?thesis by simp
  next
    case NInf
    with \<open>y = Fin b\<close> pi_gt_zero show ?thesis by simp
  next
    case NaN
    with assms show ?thesis by simp
  qed
next
  case PInf
  then show ?thesis using assms pi_gt_zero by (cases x; simp; linarith)
next
  case NInf
  then show ?thesis using assms pi_gt_zero by (cases x; simp; linarith)
next
  case NaN
  then show ?thesis using assms by simp
qed

subsection \<open>Rounding to single precision\<close>

lemma pow2_powr: "pow2 i = 2 powr real_of_int i"
  by (simp add: pow2_def powr_int)

lemma pow2_pos [simp]: "0 < pow2 i"
  by (simp add: pow2_powr)

lemma floor_log2_eq:
  assumes "pow2 e \<le> \<bar>x\<bar>" and "\<bar>x\<bar> < pow2 (e + 1)"
  shows "\<lfloor>log 2 \<bar>x\<bar>\<rfloor> = e"
proof -
  have "0 < \<bar>x\<bar>" using assms(1) pow2_pos[of e] by linarith
  then show ?thesis
    using assms by (simp add: floor_log_eq_powr_iff pow2_powr)
qed

text \<open>The rounding of a value whose binade is known.\<close>

lemma float_round_real_at:
  assumes "pow2 e \<le> \<bar>x\<bar>" and "\<bar>x\<bar> < pow2 (e + 1)" and "- 126 \<le> e"
  shows "float_round_real x = of_int (rint (x / pow2 (e - 23))) * pow2 (e - 23)"
proof -
  have "0 < \<bar>x\<bar>" using assms(1) pow2_pos[of e] by linarith
  then have "x \<noteq> 0" by auto
  moreover have "float_exponent x = e"
    using floor_log2_eq[OF assms(1,2)] assms(3) by (simp add: float_exponent_def)
  ultimately show ?thesis by (simp add: float_round_real_def Let_def)
qed

lemma float_round_real_zero [simp]: "float_round_real 0 = 0"
  by (simp add: float_round_real_def)

lemma rint_of_int [simp]: "rint (of_int n) = n"
  by (simp add: rint_def)

lemma rint_numeral [simp]: "rint (numeral k) = numeral k"
  using rint_of_int[of "numeral k"] by simp

lemma rint_error: "\<bar>of_int (rint q) - q\<bar> \<le> 1 / 2"
  unfolding rint_def Let_def by (auto; linarith)

lemma rint_small: "\<bar>q\<bar> < 1 / 2 \<Longrightarrow> rint q = 0"
proof -
  assume a: "\<bar>q\<bar> < 1 / 2"
  show ?thesis
  proof (cases "0 \<le> q")
    case True
    with a have "\<lfloor>q\<rfloor> = 0" by (simp add: floor_eq_iff)
    with a True show ?thesis by (simp add: rint_def)
  next
    case False
    with a have "\<lfloor>q\<rfloor> = - 1" by (simp add: floor_eq_iff)
    with a False show ?thesis by (simp add: rint_def)
  qed
qed

text \<open>Rounding at most doubles the magnitude.\<close>

lemma float_round_real_le: "\<bar>float_round_real x\<bar> \<le> 2 * \<bar>x\<bar>"
proof (cases "x = 0")
  case True
  then show ?thesis by (simp add: float_round_real_def)
next
  case False
  define u where "u = pow2 (float_exponent x - 23)"
  define q where "q = x / u"
  have u: "0 < u" by (simp add: u_def)
  have r: "float_round_real x = of_int (rint q) * u"
    using False by (simp add: float_round_real_def u_def q_def Let_def)
  have x: "\<bar>x\<bar> = \<bar>q\<bar> * u" using u by (simp add: q_def abs_mult)
  have "\<bar>real_of_int (rint q)\<bar> \<le> 2 * \<bar>q\<bar>"
  proof (cases "\<bar>q\<bar> < 1 / 2")
    case True
    then show ?thesis by (simp add: rint_small)
  next
    case False
    with rint_error[of q] show ?thesis by linarith
  qed
  then have "\<bar>real_of_int (rint q)\<bar> * u \<le> 2 * \<bar>q\<bar> * u"
    using u by (simp add: mult_right_mono)
  then show ?thesis using u by (simp add: r x abs_mult)
qed

text \<open>The integers below \<open>2 ^ 24\<close> in magnitude are \<^verbatim>\<open>float\<close> values.\<close>

lemma float_round_real_int:
  assumes "\<bar>n\<bar> < 2 ^ 24"
  shows "float_round_real (of_int n) = of_int n"
proof (cases "n = 0")
  case True
  then show ?thesis by (simp add: float_round_real_def)
next
  case False
  define e where "e = \<lfloor>log 2 \<bar>real_of_int n\<bar>\<rfloor>"
  have one: "1 \<le> \<bar>real_of_int n\<bar>" using False by (simp flip: of_int_abs)
  have lt: "\<bar>real_of_int n\<bar> < 2 ^ 24" using assms by (simp flip: of_int_abs)
  have "0 \<le> log 2 \<bar>real_of_int n\<bar>" using one by simp
  then have e0: "0 \<le> e" by (simp add: e_def)
  have "log 2 \<bar>real_of_int n\<bar> < 24"
    using one lt by (simp add: log_less_iff)
  then have e23: "e \<le> 23" unfolding e_def by linarith
  have fe: "float_exponent (of_int n) = e"
    using e0 by (simp add: float_exponent_def e_def)
  define k where "k = nat (23 - e)"
  have u: "pow2 (e - 23) = 1 / 2 ^ k"
    using e23 by (cases "e = 23") (simp_all add: pow2_def k_def)
  have q: "real_of_int n / pow2 (e - 23) = of_int (n * 2 ^ k)"
    by (simp add: u)
  show ?thesis
    using False
    by (simp add: float_round_real_def Let_def fe q del: of_int_mult of_int_power) (simp add: u)
qed

lemma to_float_int:
  assumes "\<bar>n\<bar> < 2 ^ 24"
  shows "to_float (Fin (of_int n)) = Fin (of_int n)"
proof -
  have "\<bar>real_of_int n\<bar> < 2 ^ 24" using assms by (simp flip: of_int_abs)
  then have "\<not> 2 ^ 128 - 2 ^ 103 \<le> \<bar>real_of_int n\<bar>" by simp
  then show ?thesis by (simp add: float_round_real_int[OF assms])
qed

lemma to_float_zero [simp]: "to_float (Fin 0) = Fin 0"
  by (simp add: float_round_real_def)

lemma to_float_one [simp]: "to_float (Fin 1) = Fin 1"
  using to_float_int[of 1] by simp

lemma to_float_numeral:
  "(numeral k :: int) < 2 ^ 24 \<Longrightarrow> to_float (Fin (numeral k)) = Fin (numeral k)"
  using to_float_int[of "numeral k"] by simp

lemma to_float_eq_NaN [simp]: "(to_float x = NaN) = (x = NaN)"
  by (cases x) auto

text \<open>A value less than \<open>2 ^ -16\<close> below 360 is rounded to 360.\<close>

lemma float_round_real_near_360:
  assumes "360 - 1 / 65536 < a" and "a < 360"
  shows "float_round_real a = 360"
proof -
  have u: "pow2 (8 - 23) = 1 / 32768" by (simp add: pow2_def)
  have "float_round_real a = of_int (rint (a / pow2 (8 - 23))) * pow2 (8 - 23)"
    by (rule float_round_real_at) (use assms in \<open>simp_all add: pow2_def\<close>)
  then have "float_round_real a = of_int (rint (a * 32768)) / 32768"
    by (simp only: u) simp
  moreover have "rint (a * 32768) = 11796480"
  proof -
    have f: "\<lfloor>a * 32768\<rfloor> = 11796479"
      using assms by (simp add: floor_eq_iff)
    have "1 / 2 < a * 32768 - 11796479" using assms by simp
    then show ?thesis by (simp add: rint_def Let_def f)
  qed
  ultimately show ?thesis by simp
qed

lemma arctan_less_self:
  assumes "0 < x"
  shows "arctan x < x"
proof -
  have "\<exists>z. 0 < z \<and> z < x \<and> arctan x - arctan 0 = (x - 0) * inverse (1 + z\<^sup>2)"
    by (rule MVT2[OF assms]) (auto intro: DERIV_arctan)
  then obtain z where z: "0 < z" and eq: "arctan x = x * inverse (1 + z\<^sup>2)" by auto
  have "inverse (1 + z\<^sup>2) < 1" using z by (simp add: inverse_less_1_iff)
  with assms show ?thesis by (simp add: eq)
qed

text \<open>
  The sum of four pixels of one value \<open>c\<close>, added as the source adds them, is finite when
  \<open>c\<close> is at most \<open>2 ^ 124\<close> in magnitude (about \<open>2.1e37\<close>), as every elevation is.
\<close>

lemma constant_sum_finite:
  assumes "\<bar>c\<bar> \<le> 2 ^ 124"
  shows "\<exists>s. fadd (fadd (fadd (Fin c) (Fin c)) (Fin c)) (Fin c) = Fin s"
proof -
  define r1 where "r1 = float_round_real (c + c)"
  define r2 where "r2 = float_round_real (r1 + c)"
  have fin: "\<bar>x\<bar> < 2 ^ 128 - 2 ^ 103 \<Longrightarrow> to_float (Fin x) = Fin (float_round_real x)" for x
    by simp
  have c: "\<bar>c\<bar> \<le> 21267647932558653966460912964485513216"
    using assms by simp
  have "\<bar>r1\<bar> \<le> 2 * \<bar>c + c\<bar>"
    unfolding r1_def by (rule float_round_real_le)
  then have b1: "\<bar>r1\<bar> \<le> 4 * \<bar>c\<bar>" by simp
  have "\<bar>r2\<bar> \<le> 2 * \<bar>r1 + c\<bar>"
    unfolding r2_def by (rule float_round_real_le)
  moreover have "\<bar>r1 + c\<bar> \<le> \<bar>r1\<bar> + \<bar>c\<bar>" by (rule abs_triangle_ineq)
  moreover have "a \<le> 2 * b \<Longrightarrow> b \<le> d + e \<Longrightarrow> d \<le> 4 * e \<Longrightarrow> a \<le> 10 * e" for a b d e :: real
    by linarith
  ultimately have b2: "\<bar>r2\<bar> \<le> 10 * \<bar>c\<bar>" using b1 by blast
  have t1: "\<bar>r1 + c\<bar> \<le> \<bar>r1\<bar> + \<bar>c\<bar>" by (rule abs_triangle_ineq)
  have t2: "\<bar>r2 + c\<bar> \<le> \<bar>r2\<bar> + \<bar>c\<bar>" by (rule abs_triangle_ineq)
  have "\<bar>c + c\<bar> < 2 ^ 128 - 2 ^ 103" using c by simp
  then have s1: "fadd (Fin c) (Fin c) = Fin r1"
    by (simp add: fadd_def r1_def)
  have "\<bar>r1 + c\<bar> < 2 ^ 128 - 2 ^ 103" using c b1 t1 by simp
  then have s2: "fadd (Fin r1) (Fin c) = Fin r2"
    by (simp add: fadd_def r2_def)
  have "\<bar>r2 + c\<bar> < 2 ^ 128 - 2 ^ 103" using c b2 t2 by simp
  then have "fadd (Fin r2) (Fin c) = Fin (float_round_real (r2 + c))"
    by (simp add: fadd_def)
  with s1 s2 show ?thesis by simp
qed

text \<open>The shade value \<open>1 + 254 / sqrt 2\<close> as a \<^verbatim>\<open>float\<close>.\<close>

lemma float_round_real_shade: "float_round_real (1 + 254 / sqrt 2) = 11836137 / 65536"
proof -
  have eq: "254 / sqrt 2 = 127 * sqrt 2"
    using real_div_sqrt[of 2] by simp
  have lo: "11770601 / 8323072 < sqrt 2"
    by (rule real_less_rsqrt) (simp add: power2_eq_square)
  have hi: "sqrt 2 < 23541203 / 16646144"
    by (rule real_less_lsqrt) (simp_all add: power2_eq_square)
  define v where "v = 1 + 127 * sqrt 2"
  have u: "pow2 (7 - 23) = 1 / 65536" by (simp add: pow2_def)
  have "float_round_real v = of_int (rint (v / pow2 (7 - 23))) * pow2 (7 - 23)"
    by (rule float_round_real_at) (use lo hi in \<open>simp_all add: pow2_def v_def\<close>)
  then have "float_round_real v = of_int (rint (v * 65536)) / 65536"
    by (simp only: u) simp
  moreover have "rint (v * 65536) = 11836137"
  proof -
    have f: "\<lfloor>v * 65536\<rfloor> = 11836137"
      using lo hi by (simp add: floor_eq_iff v_def)
    have "v * 65536 - 11836137 < 1 / 2" using hi by (simp add: v_def)
    then show ?thesis by (simp add: rint_def Let_def f)
  qed
  ultimately show ?thesis by (simp add: v_def eq)
qed

section \<open>Terrain calculations: what the code guarantees\<close>

text \<open>
  On a window whose values in the band are one finite constant, whose sum of four as the
  source adds them is finite, with resolutions that are neither zero nor NaN, all four
  gradients are zero.
\<close>

lemma uniform_gradients:
  assumes "\<forall>i<3. \<forall>j<3. px dataBlock (terrain_unit.band self) i j = Fin c"
    and "fadd (fadd (fadd (Fin c) (Fin c)) (Fin c)) (Fin c) = Fin s"
    and "ewRes self \<noteq> Fin 0" and "ewRes self \<noteq> NaN"
    and "nsRes self \<noteq> Fin 0" and "nsRes self \<noteq> NaN"
  shows "slope_dx self dataBlock = Fin 0" and "slope_dy self dataBlock = Fin 0"
    and "aspect_dx self dataBlock = Fin 0" and "aspect_dy self dataBlock = Fin 0"
  using assms
  by (simp_all add: slope_dx_def slope_dy_def aspect_dx_def aspect_dy_def Let_def
        fsub_def fdiv_def zero_div)

subsection \<open>The hill shade formula\<close>

text \<open>
  The hill shade on finite values, written with real numbers: when the two gradients and
  the sun angles are finite, the shade value is the one of the formula below, in which
  the sun azimuth enters as \<open>az - pi / 2 * (pi / 180)\<close>, converted to \<^verbatim>\<open>float\<close>.
\<close>

lemma hillshade_finite:
  assumes "terrain_unit.band self < uint_of_int numBands"
    and "hillshade_dx self dataBlock = Fin x" and "hillshade_dy self dataBlock = Fin y"
    and "sunZenith self = Fin z" and "sunAzimuth self = Fin az"
  shows "RSGISCalcHillShade_calcImageValue self dataBlock numBands 3 output =
           Inr (output[0 := to_float (Fin (let cang = (sin (z * (pi / 180)) -
                                       cos (z * (pi / 180)) * sqrt (x * x + y * y) *
                                       sin (atan2_real y x - (az - pi / 2 * (pi / 180)))) /
                                      sqrt (1 + 1 * (x * x + y * y))
                                 in if cang \<le> 0 then 1 else 1 + 254 * cang))])"
proof -
  have sq: "\<not> (x * x + y * y < 0)"
    using sum_squares_ge_zero[of x y] by linarith
  have nn: "\<not> (1 + (x * x + y * y) < 0)"
    using sum_squares_ge_zero[of x y] by linarith
  have "0 < 1 + (x * x + y * y)"
    using sum_squares_ge_zero[of x y] by linarith
  then have nz: "sqrt (1 + (x * x + y * y)) \<noteq> 0"
    by simp
  show ?thesis
    using assms sq nn nz
    by (simp add: RSGISCalcHillShade_calcImageValue_def Let_def M_PI_def del: to_float.simps)
qed

text \<open>
  Claim C1. On a 3x3 window the hill shade calculation computes, for every band index
  within the image, resolutions and sun angles, the shade value from the shade angle with
  the literal sun azimuth term \<^verbatim>\<open>sunAzimuth - M_PI/2 * degreesToRadians\<close>, and stores it
  as a \<^verbatim>\<open>float\<close>; for a band index outside the image it throws. On finite values that
  shade angle is \<open>sin (aspect - (sunAzimuth - pi / 2 * (pi / 180)))\<close>: the quarter turn is
  multiplied by the factor from degrees to radians before it is subtracted, and the
  azimuth is not converted.
\<close>

theorem hillshade_literal_azimuth_term:
  "RSGISCalcHillShade_calcImageValue self dataBlock numBands 3 output =
     (if terrain_unit.band self < uint_of_int numBands then
        let dx = hillshade_dx self dataBlock;
            dy = hillshade_dy self dataBlock;
            zenith = sunZenith self * (M_PI / Fin 180);
            cang = (fp_sin zenith - fp_cos zenith * fp_sqrt (dx * dx + dy * dy) *
                      shade_angle_literal (fp_atan2 dy dx) (sunAzimuth self)) /
                   fp_sqrt (Fin 1 + Fin 1 * (dx * dx + dy * dy))
        in Inr (output[0 := to_float (if cang \<le> Fin 0 then Fin 1 else Fin 1 + Fin 254 * cang)])
      else Inl (RSGISImageCalcException ''Specified image band is not within the image.'')) \<and>
   (terrain_unit.band self < uint_of_int numBands \<longrightarrow>
    hillshade_dx self dataBlock = Fin x \<longrightarrow> hillshade_dy self dataBlock = Fin y \<longrightarrow>
    sunZenith self = Fin z \<longrightarrow> sunAzimuth self = Fin az \<longrightarrow>
      RSGISCalcHillShade_calcImageValue self dataBlock numBands 3 output =
        Inr (output[0 := to_float (Fin (let cang = (sin (z * (pi / 180)) -
                                    cos (z * (pi / 180)) * sqrt (x * x + y * y) *
                                    sin (atan2_real y x - (az - pi / 2 * (pi / 180)))) /
                                   sqrt (1 + 1 * (x * x + y * y))
                              in if cang \<le> 0 then 1 else 1 + 254 * cang))]))"
proof (intro conjI impI)
  show "RSGISCalcHillShade_calcImageValue self dataBlock numBands 3 output =
     (if terrain_unit.band self < uint_of_int numBands then
        let dx = hillshade_dx self dataBlock;
            dy = hillshade_dy self dataBlock;
            zenith = sunZenith self * (M_PI / Fin 180);
            cang = (fp_sin zenith - fp_cos zenith * fp_sqrt (dx * dx + dy * dy) *
                      shade_angle_literal (fp_atan2 dy dx) (sunAzimuth self)) /
                   fp_sqrt (Fin 1 + Fin 1 * (dx * dx + dy * dy))
        in Inr (output[0 := to_float (if cang \<le> Fin 0 then Fin 1 else Fin 1 + Fin 254 * cang)])
      else Inl (RSGISImageCalcException ''Specified image band is not within the image.''))"
    by (simp add: RSGISCalcHillShade_calcImageValue_def shade_angle_literal_def Let_def)
qed (rule hillshade_finite)

text \<open>
  A slope that rises to the east under a sun at the zenith, with the azimuth that makes
  the literal shade angle a quarter turn: the shade value is \<open>1 + 254 / sqrt 2\<close>, stored as
  the \<^verbatim>\<open>float\<close> \<open>11836137 / 65536\<close> (180.60511779785156).
\<close>

theorem hillshade_literal_azimuth_term_witness:
  "hillshade_dx \<lparr>terrain_unit.band = 0, ewRes = Fin 1, nsRes = Fin 1, sunZenith = Fin 0,
      sunAzimuth = Fin (pi * pi / 360 + pi / 2)\<rparr>
     [[[Fin 0, Fin 1, Fin 2], [Fin 0, Fin 1, Fin 2], [Fin 0, Fin 1, Fin 2]]] = Fin 1 \<and>
   hillshade_dy \<lparr>terrain_unit.band = 0, ewRes = Fin 1, nsRes = Fin 1, sunZenith = Fin 0,
      sunAzimuth = Fin (pi * pi / 360 + pi / 2)\<rparr>
     [[[Fin 0, Fin 1, Fin 2], [Fin 0, Fin 1, Fin 2], [Fin 0, Fin 1, Fin 2]]] = Fin 0 \<and>
   RSGISCalcHillShade_calcImageValue
     \<lparr>terrain_unit.band = 0, ewRes = Fin 1, nsRes = Fin 1, sunZenith = Fin 0,
      sunAzimuth = Fin (pi * pi / 360 + pi / 2)\<rparr>
     [[[Fin 0, Fin 1, Fin 2], [Fin 0, Fin 1, Fin 2], [Fin 0, Fin 1, Fin 2]]] 1 3 [Fin 0]
   = Inr [Fin (11836137 / 65536)]"
proof -
  let ?u = "\<lparr>terrain_unit.band = 0, ewRes = Fin 1, nsRes = Fin 1, sunZenith = Fin 0,
      sunAzimuth = Fin (pi * pi / 360 + pi / 2)\<rparr>"
  let ?w = "[[[Fin 0, Fin 1, Fin 2], [Fin 0, Fin 1, Fin 2], [Fin 0, Fin 1, Fin 2]]]"
  have dx: "hillshade_dx ?u ?w = Fin 1"
    by (simp add: hillshade_dx_def px_def Let_def fadd_def fsub_def fmul_def fdiv_def
          to_float_numeral del: to_float.simps)
  have dy: "hillshade_dy ?u ?w = Fin 0"
    by (simp add: hillshade_dy_def px_def Let_def fadd_def fsub_def fmul_def fdiv_def
          to_float_numeral del: to_float.simps)
  have b: "terrain_unit.band ?u < uint_of_int 1" by (simp add: uint_of_int_def)
  have z: "sunZenith ?u = Fin 0" and az: "sunAzimuth ?u = Fin (pi * pi / 360 + pi / 2)"
    by simp_all
  have angle: "atan2_real 0 1 - (pi * pi / 360 + pi / 2 - pi / 2 * (pi / 180)) = - (pi / 2)"
    by (simp add: atan2_real_def)
  have store: "to_float (Fin (1 + 254 / sqrt 2)) = Fin (11836137 / 65536)"
  proof -
    have "1 + 254 / sqrt 2 \<le> 1 + 254" by (simp add: divide_le_eq)
    moreover have "0 \<le> 254 / sqrt 2" by simp
    ultimately have "\<not> 2 ^ 128 - 2 ^ 103 \<le> \<bar>1 + 254 / sqrt 2\<bar>" by simp
    then show ?thesis by (simp add: float_round_real_shade)
  qed
  have "RSGISCalcHillShade_calcImageValue ?u ?w 1 3 [Fin 0] =
      Inr ([Fin 0][0 := to_float (Fin (let cang = (sin (0 * (pi / 180)) -
                                    cos (0 * (pi / 180)) * sqrt (1 * 1 + 0 * 0) *
                                    sin (atan2_real 0 1 - (pi * pi / 360 + pi / 2 - pi / 2 * (pi / 180)))) /
                                   sqrt (1 + 1 * (1 * 1 + 0 * 0))
                              in if cang \<le> 0 then 1 else 1 + 254 * cang))])"
    using hillshade_literal_azimuth_term[of ?u ?w 1 "[Fin 0]" 1 0 0 "pi * pi / 360 + pi / 2"]
      b dx dy z az
    by blast
  then show ?thesis
    unfolding angle using dx dy by (simp add: Let_def store del: to_float.simps)
qed

subsection \<open>Flat terrain\<close>

text \<open>
  Claim C3, as the code has it. For every 3x3 window whose values in the band are all
  equal to one finite constant \<open>c\<close> whose sum \<open>c + c + c + c\<close>, added as \<^verbatim>\<open>float\<close> values,
  is finite, and resolutions that are neither zero nor NaN, the slope calculation outputs
  exactly 0 (in degrees and in radians) and the aspect calculation outputs the NaN that
  marks a flat area.
\<close>

theorem flat_window_slope_zero_aspect_nan:
  assumes "b < uint_of_int numBands"
    and "\<forall>i<3. \<forall>j<3. px dataBlock b i j = Fin c"
    and "fadd (fadd (fadd (Fin c) (Fin c)) (Fin c)) (Fin c) = Fin s"
    and "ew \<noteq> Fin 0" and "ew \<noteq> NaN" and "ns \<noteq> Fin 0" and "ns \<noteq> NaN"
  shows "RSGISCalcSlope_calcImageValue \<lparr>terrain_unit.band = b, ewRes = ew, nsRes = ns, outType = t\<rparr>
           dataBlock numBands 3 output = Inr (output[0 := Fin 0]) \<and>
         RSGISCalcAspect_calcImageValue \<lparr>terrain_unit.band = b, ewRes = ew, nsRes = ns\<rparr>
           dataBlock numBands 3 output = Inr (output[0 := NaN])"
proof
  show "RSGISCalcSlope_calcImageValue \<lparr>terrain_unit.band = b, ewRes = ew, nsRes = ns, outType = t\<rparr>
           dataBlock numBands 3 output = Inr (output[0 := Fin 0])"
    using assms
    by (simp add: RSGISCalcSlope_calcImageValue_def Let_def
          uniform_gradients[where c = c and s = s] M_PI_def)
next
  show "RSGISCalcAspect_calcImageValue \<lparr>terrain_unit.band = b, ewRes = ew, nsRes = ns\<rparr>
           dataBlock numBands 3 output = Inr (output[0 := NaN])"
    using assms
    by (simp add: RSGISCalcAspect_calcImageValue_def Let_def
          uniform_gradients[where c = c and s = s] fp_eq_def)
qed

text \<open>A window of the constant 5 at a resolution of 30: four times 5 is 20.\<close>

theorem flat_window_slope_zero_aspect_nan_witness:
  "(0::nat) < uint_of_int 1 \<and>
   fadd (fadd (fadd (Fin 5) (Fin 5)) (Fin 5)) (Fin 5) = Fin 20 \<and>
   RSGISCalcSlope_calcImageValue \<lparr>terrain_unit.band = 0, ewRes = Fin 30, nsRes = Fin 30, outType = 0\<rparr>
      [[[Fin 5, Fin 5, Fin 5], [Fin 5, Fin 5, Fin 5], [Fin 5, Fin 5, Fin 5]]] 1 3 [Fin 9] = Inr [Fin 0] \<and>
   RSGISCalcAspect_calcImageValue \<lparr>terrain_unit.band = 0, ewRes = Fin 30, nsRes = Fin 30\<rparr>
      [[[Fin 5, Fin 5, Fin 5], [Fin 5, Fin 5, Fin 5], [Fin 5, Fin 5, Fin 5]]] 1 3 [Fin 9] = Inr [NaN]"
proof -
  let ?w = "[[[Fin 5, Fin 5, Fin 5], [Fin 5, Fin 5, Fin 5], [Fin 5, Fin 5, Fin 5]]]"
  have b: "(0::nat) < uint_of_int 1" by (simp add: uint_of_int_def)
  have u: "\<forall>i<3. \<forall>j<3. px ?w 0 i j = Fin 5"
    by (simp add: px_def less_Suc_eq numeral_3_eq_3)
  have s: "fadd (fadd (fadd (Fin 5) (Fin 5)) (Fin 5)) (Fin 5) = Fin 20"
    by (simp add: fadd_def to_float_numeral del: to_float.simps)
  from flat_window_slope_zero_aspect_nan[OF b u s, of "Fin 30" "Fin 30" 0 "[Fin 9]"] b s
  show ?thesis by simp
qed

text \<open>
  The claim does not hold for every such window. A window of the constant
  \<open>- (2 ^ 128 - 2 ^ 104)\<close>, the least finite \<^verbatim>\<open>float\<close>, which rasters of that type
  often use for pixels without data: the sum of four pixels is minus infinity on both
  sides of each gradient, their difference is NaN, and the slope is NaN, not 0. And a
  window of the constant 5 with an east-west resolution of zero: the gradient is \<open>0 / 0\<close>,
  and the slope is NaN again.
\<close>

theorem flat_window_nodata_counterexample:
  "RSGISCalcSlope_calcImageValue \<lparr>terrain_unit.band = 0, ewRes = Fin 30, nsRes = Fin 30, outType = 0\<rparr>
      [[[Fin (- (2 ^ 128 - 2 ^ 104)), Fin (- (2 ^ 128 - 2 ^ 104)), Fin (- (2 ^ 128 - 2 ^ 104))],
        [Fin (- (2 ^ 128 - 2 ^ 104)), Fin (- (2 ^ 128 - 2 ^ 104)), Fin (- (2 ^ 128 - 2 ^ 104))],
        [Fin (- (2 ^ 128 - 2 ^ 104)), Fin (- (2 ^ 128 - 2 ^ 104)), Fin (- (2 ^ 128 - 2 ^ 104))]]]
      1 3 [Fin 9] = Inr [NaN] \<and>
   RSGISCalcSlope_calcImageValue \<lparr>terrain_unit.band = 0, ewRes = Fin 0, nsRes = Fin 30, outType = 0\<rparr>
      [[[Fin 5, Fin 5, Fin 5], [Fin 5, Fin 5, Fin 5], [Fin 5, Fin 5, Fin 5]]] 1 3 [Fin 9] = Inr [NaN]"
proof
  show "RSGISCalcSlope_calcImageValue \<lparr>terrain_unit.band = 0, ewRes = Fin 30, nsRes = Fin 30, outType = 0\<rparr>
      [[[Fin (- (2 ^ 128 - 2 ^ 104)), Fin (- (2 ^ 128 - 2 ^ 104)), Fin (- (2 ^ 128 - 2 ^ 104))],
        [Fin (- (2 ^ 128 - 2 ^ 104)), Fin (- (2 ^ 128 - 2 ^ 104)), Fin (- (2 ^ 128 - 2 ^ 104))],
        [Fin (- (2 ^ 128 - 2 ^ 104)), Fin (- (2 ^ 128 - 2 ^ 104)), Fin (- (2 ^ 128 - 2 ^ 104))]]]
      1 3 [Fin 9] = Inr [NaN]"
    by (simp add: RSGISCalcSlope_calcImageValue_def slope_dx_def slope_dy_def uint_of_int_def px_def
          Let_def M_PI_def fadd_def fsub_def fdiv_def minus_cdouble_def)
next
  have s: "fadd (fadd (fadd (Fin 5) (Fin 5)) (Fin 5)) (Fin 5) = Fin 20"
    by (simp add: fadd_def to_float_numeral del: to_float.simps)
  show "RSGISCalcSlope_calcImageValue \<lparr>terrain_unit.band = 0, ewRes = Fin 0, nsRes = Fin 30, outType = 0\<rparr>
      [[[Fin 5, Fin 5, Fin 5], [Fin 5, Fin 5, Fin 5], [Fin 5, Fin 5, Fin 5]]] 1 3 [Fin 9] = Inr [NaN]"
    by (simp add: RSGISCalcSlope_calcImageValue_def slope_dx_def slope_dy_def uint_of_int_def px_def
          Let_def M_PI_def s fsub_def fdiv_def)
qed

subsection \<open>The range of the aspect\<close>

text \<open>
  When neither gradient of the aspect is NaN and they are not both zero, the aspect is,
  before it is stored, a finite \<^verbatim>\<open>double\<close> in the half-open interval from 0 to 360: the
  angle \<open>t\<close> of \<^verbatim>\<open>atan2(-dx, dy)\<close> in degrees, shifted by 360 when it is negative. What
  is output is that value converted to \<^verbatim>\<open>float\<close>.
\<close>

lemma aspect_before_store:
  assumes "winSize = 3" and "terrain_unit.band self < uint_of_int numBands"
    and "aspect_dx self dataBlock \<noteq> NaN" and "aspect_dy self dataBlock \<noteq> NaN"
    and "\<not> (fp_eq (aspect_dx self dataBlock) (Fin 0) \<and> fp_eq (aspect_dy self dataBlock) (Fin 0))"
  shows "\<exists>t a. fp_atan2 (- aspect_dx self dataBlock) (aspect_dy self dataBlock) * (Fin 180 / M_PI) = Fin t \<and>
           a = (if t < 0 then t + 360 else t) \<and> 0 \<le> a \<and> a < 360 \<and>
           RSGISCalcAspect_calcImageValue self dataBlock numBands winSize output =
             Inr (output[0 := to_float (Fin a)])"
proof -
  have "- aspect_dx self dataBlock \<noteq> NaN" using assms(3) by (simp add: uminus_eq_NaN)
  from fp_atan2_range[OF this assms(4)]
  obtain r where r: "fp_atan2 (- aspect_dx self dataBlock) (aspect_dy self dataBlock) = Fin r"
    and lo: "- pi \<le> r" and hi: "r \<le> pi"
    by (cases "fp_atan2 (- aspect_dx self dataBlock) (aspect_dy self dataBlock)") auto
  define t where "t = r * (180 / pi)"
  have t: "fp_atan2 (- aspect_dx self dataBlock) (aspect_dy self dataBlock) * (Fin 180 / M_PI) = Fin t"
    by (simp add: r t_def M_PI_def)
  have tlo: "- 180 \<le> t" using lo pi_gt_zero by (simp add: t_def field_simps)
  have thi: "t \<le> 180" using hi pi_gt_zero by (simp add: t_def field_simps)
  define a where "a = (if t < 0 then t + 360 else t)"
  have a: "0 \<le> a" "a < 360" using tlo thi by (auto simp: a_def)
  have "RSGISCalcAspect_calcImageValue self dataBlock numBands winSize output =
      Inr (output[0 := to_float (Fin a)])"
    using assms(1,2,5) a
    by (auto simp: RSGISCalcAspect_calcImageValue_def Let_def t a_def fp_eq_def simp del: to_float.simps)
  with t a a_def show ?thesis by blast
qed

text \<open>
  Claim C9 says that the aspect that is output lies in the half-open interval from 0 to
  360 whenever the gradient is not \<open>(0, 0)\<close>. The code shifts a negative angle by 360 and
  maps 360 to 0 while the aspect is a \<^verbatim>\<open>double\<close>, and converts it to \<^verbatim>\<open>float\<close> only
  afterwards, when it stores it: an angle that is less than \<open>2 ^ -16\<close> below 360 passes the
  test and is stored as 360. This is such a window, at a resolution of 1: a slope that
  rises to the south by 5 a pixel, with \<open>5242881 / 524288\<close>, which is \<open>10 + 2 ^ -19\<close> (the
  \<^verbatim>\<open>float\<close> next but one above 10), in its last pixel. The gradients are \<open>2 ^ -19\<close> and 40
  (the sum \<open>40 + 2 ^ -19\<close> is half way between two \<^verbatim>\<open>float\<close> values and becomes 40), the
  shifted angle is below 360, and the output is 360. The angle is about \<open>2.7e-6\<close> below
  360: the rounding of the \<^verbatim>\<open>double\<close> arithmetic, of about \<open>6e-14\<close> at 360, does not
  change what is stored.
\<close>

theorem aspect_stored_as_360:
  "aspect_dx \<lparr>terrain_unit.band = 0, ewRes = Fin 1, nsRes = Fin 1\<rparr>
      [[[Fin 0, Fin 0, Fin 0], [Fin 5, Fin 5, Fin 5], [Fin 10, Fin 10, Fin (5242881 / 524288)]]]
     = Fin (1 / 524288) \<and>
   aspect_dy \<lparr>terrain_unit.band = 0, ewRes = Fin 1, nsRes = Fin 1\<rparr>
      [[[Fin 0, Fin 0, Fin 0], [Fin 5, Fin 5, Fin 5], [Fin 10, Fin 10, Fin (5242881 / 524288)]]]
     = Fin 40 \<and>
   fp_atan2 (- Fin (1 / 524288)) (Fin 40) * (Fin 180 / M_PI) + Fin 360 < Fin 360 \<and>
   RSGISCalcAspect_calcImageValue \<lparr>terrain_unit.band = 0, ewRes = Fin 1, nsRes = Fin 1\<rparr>
      [[[Fin 0, Fin 0, Fin 0], [Fin 5, Fin 5, Fin 5], [Fin 10, Fin 10, Fin (5242881 / 524288)]]]
      1 3 [Fin 9] = Inr [Fin 360]"
proof -
  let ?u = "\<lparr>terrain_unit.band = 0, ewRes = Fin 1, nsRes = Fin 1\<rparr>"
  let ?w = "[[[Fin 0, Fin 0, Fin 0], [Fin 5, Fin 5, Fin 5], [Fin 10, Fin 10, Fin (5242881 / 524288)]]]"
  have r20: "float_round_real (10485761 / 524288) = 10485761 / 524288"
  proof -
    have "float_round_real (10485761 / 524288) =
        of_int (rint ((10485761 / 524288) / pow2 (4 - 23))) * pow2 (4 - 23)"
      by (rule float_round_real_at) (simp_all add: pow2_def)
    moreover have "(10485761 / 524288) / pow2 (4 - 23) = real_of_int 10485761"
      by (simp add: pow2_def)
    ultimately show ?thesis by (simp add: pow2_def)
  qed
  have r40: "float_round_real (20971521 / 524288) = 40"
  proof -
    have "float_round_real (20971521 / 524288) =
        of_int (rint ((20971521 / 524288) / pow2 (5 - 23))) * pow2 (5 - 23)"
      by (rule float_round_real_at) (simp_all add: pow2_def)
    moreover have "rint ((20971521 / 524288) / pow2 (5 - 23)) = 10485760"
      by (simp add: pow2_def rint_def)
    ultimately show ?thesis by (simp add: pow2_def)
  qed
  have re: "float_round_real (1 / 524288) = 1 / 524288"
  proof -
    have "float_round_real (1 / 524288) =
        of_int (rint ((1 / 524288) / pow2 (- 19 - 23))) * pow2 (- 19 - 23)"
      by (rule float_round_real_at) (simp_all add: pow2_def)
    moreover have "(1 / 524288) / pow2 (- 19 - 23) = real_of_int 8388608"
      by (simp add: pow2_def)
    ultimately show ?thesis by (simp add: pow2_def)
  qed
  have a1: "fadd (Fin 0) (Fin 5) = Fin 5" and a2: "fadd (Fin 5) (Fin 5) = Fin 10"
    and a3: "fadd (Fin 10) (Fin 10) = Fin 20" and a4: "fadd (Fin 20) (Fin 10) = Fin 30"
    and a5: "fadd (Fin 0) (Fin 0) = Fin 0"
    by (simp_all add: fadd_def to_float_numeral del: to_float.simps)
  have a6: "fadd (Fin 10) (Fin (5242881 / 524288)) = Fin (10485761 / 524288)"
    by (simp add: fadd_def r20)
  have a7: "fadd (Fin 30) (Fin (5242881 / 524288)) = Fin 40"
    by (simp add: fadd_def r40)
  have s1: "fsub (Fin (10485761 / 524288)) (Fin 20) = Fin (1 / 524288)"
    by (simp add: fsub_def re)
  have s2: "fsub (Fin 40) (Fin 0) = Fin 40"
    by (simp add: fsub_def to_float_numeral del: to_float.simps)
  have d1: "fdiv (Fin (1 / 524288)) (Fin 1) = Fin (1 / 524288)"
    by (simp add: fdiv_def re)
  have d2: "fdiv (Fin 40) (Fin 1) = Fin 40"
    by (simp add: fdiv_def to_float_numeral del: to_float.simps)
  have dx: "aspect_dx ?u ?w = Fin (1 / 524288)"
    unfolding aspect_dx_def Let_def px_def by (simp add: a1 a2 a3 a6 s1 d1 del: to_float.simps)
  have dy: "aspect_dy ?u ?w = Fin 40"
    unfolding aspect_dy_def Let_def px_def by (simp add: a3 a4 a5 a7 s2 d2 del: to_float.simps)
  define t where "t = arctan (1 / 20971520) * (180 / pi)"
  have "0 < arctan (1 / 20971520 :: real)" by (simp add: zero_less_arctan_iff)
  then have tpos: "0 < t" using pi_gt_zero by (simp add: t_def)
  have "arctan (1 / 20971520 :: real) < 1 / 20971520" by (rule arctan_less_self) simp
  moreover have "180 / pi \<le> 90" using pi_ge_two by (simp add: divide_le_eq)
  moreover have "0 < 180 / pi" using pi_gt_zero by simp
  ultimately have "t < (1 / 20971520) * 90"
    unfolding t_def using \<open>0 < arctan (1 / 20971520 :: real)\<close> by (intro mult_less_le_imp_less) simp_all
  then have tsmall: "t < 1 / 65536" by simp
  have raw: "fp_atan2 (- Fin (1 / 524288)) (Fin 40) * (Fin 180 / M_PI) = Fin (- t)"
    using pi_gt_zero by (simp add: atan2_real_def M_PI_def t_def arctan_minus)
  have st: "to_float (Fin (360 - t)) = Fin 360"
    using tpos tsmall float_round_real_near_360[of "360 - t"] by simp
  have b: "terrain_unit.band ?u < uint_of_int 1" by (simp add: uint_of_int_def)
  have lt: "fp_atan2 (- Fin (1 / 524288)) (Fin 40) * (Fin 180 / M_PI) + Fin 360 < Fin 360"
    unfolding raw using tpos by simp
  have "RSGISCalcAspect_calcImageValue ?u ?w 1 3 [Fin 9] = Inr [Fin 360]"
    unfolding RSGISCalcAspect_calcImageValue_def Let_def dx dy raw
    using tpos b by (simp add: fp_eq_def st del: to_float.simps)
  with dx dy lt show ?thesis by blast
qed

subsection \<open>Angles that are not a number\<close>

text \<open>
  On flat terrain (a window of one finite constant whose sum of four is finite,
  resolutions neither zero nor NaN) the aspect is NaN, and with it the angle between the
  surface and any ray.
\<close>

lemma ray_angle_flat:
  assumes "\<forall>i<3. \<forall>j<3. px dataBlock (terrain_unit.band self) i j = Fin c"
    and "fadd (fadd (fadd (Fin c) (Fin c)) (Fin c)) (Fin c) = Fin s"
    and "ewRes self \<noteq> Fin 0" and "ewRes self \<noteq> NaN"
    and "nsRes self \<noteq> Fin 0" and "nsRes self \<noteq> NaN"
  shows "ray_angle self dataBlock zenith azimuth = NaN"
  using assms
  by (simp add: ray_angle_def Let_def uniform_gradients[where c = c and s = s] fp_eq_def M_PI_def)

text \<open>
  Claim C4. For every 3x3 window and band index within the image: when the incidence
  angle comes out as NaN the output is the sun zenith angle, when the exitance angle comes
  out as NaN the output is 0, and both calculations return an output vector (they do not
  throw).
\<close>

theorem nan_angle_substituted:
  assumes "winSize = 3"
    and "terrain_unit.band sun < uint_of_int numBands"
    and "terrain_unit.band view < uint_of_int numBands"
  shows "(isnan (ray_angle sun dataBlock (sunZenith sun) (sunAzimuth sun)) \<longrightarrow>
            RSGISCalcRayIncidentAngle_calcImageValue sun dataBlock numBands winSize output =
              Inr (output[0 := sunZenith sun])) \<and>
         (isnan (ray_angle view dataBlock (viewZenith view) (viewAzimuth view)) \<longrightarrow>
            RSGISCalcRayExitanceAngle_calcImageValue view dataBlock numBands winSize output =
              Inr (output[0 := Fin 0])) \<and>
         (\<exists>out. RSGISCalcRayIncidentAngle_calcImageValue sun dataBlock numBands winSize output = Inr out) \<and>
         (\<exists>out. RSGISCalcRayExitanceAngle_calcImageValue view dataBlock numBands winSize output = Inr out)"
  using assms
  by (simp add: RSGISCalcRayIncidentAngle_calcImageValue_def
        RSGISCalcRayExitanceAngle_calcImageValue_def Let_def isnan_def)

text \<open>
  Flat terrain under a sun at zenith 35 and a viewer at zenith 10: both angles are NaN,
  the incidence angle is output as 35 and the exitance angle as 0.
\<close>

theorem nan_angle_substituted_witness:
  "isnan (ray_angle \<lparr>terrain_unit.band = 0, ewRes = Fin 30, nsRes = Fin 30, sunZenith = Fin 35, sunAzimuth = Fin 140\<rparr>
            [[[Fin 5, Fin 5, Fin 5], [Fin 5, Fin 5, Fin 5], [Fin 5, Fin 5, Fin 5]]] (Fin 35) (Fin 140)) \<and>
   RSGISCalcRayIncidentAngle_calcImageValue
     \<lparr>terrain_unit.band = 0, ewRes = Fin 30, nsRes = Fin 30, sunZenith = Fin 35, sunAzimuth = Fin 140\<rparr>
     [[[Fin 5, Fin 5, Fin 5], [Fin 5, Fin 5, Fin 5], [Fin 5, Fin 5, Fin 5]]] 1 3 [Fin 9] = Inr [Fin 35] \<and>
   isnan (ray_angle \<lparr>terrain_unit.band = 0, ewRes = Fin 30, nsRes = Fin 30, viewZenith = Fin 10, viewAzimuth = Fin 90\<rparr>
            [[[Fin 5, Fin 5, Fin 5], [Fin 5, Fin 5, Fin 5], [Fin 5, Fin 5, Fin 5]]] (Fin 10) (Fin 90)) \<and>
   RSGISCalcRayExitanceAngle_calcImageValue
     \<lparr>terrain_unit.band = 0, ewRes = Fin 30, nsRes = Fin 30, viewZenith = Fin 10, viewAzimuth = Fin 90\<rparr>
     [[[Fin 5, Fin 5, Fin 5], [Fin 5, Fin 5, Fin 5], [Fin 5, Fin 5, Fin 5]]] 1 3 [Fin 9] = Inr [Fin 0]"
proof -
  let ?s = "\<lparr>terrain_unit.band = 0, ewRes = Fin 30, nsRes = Fin 30, sunZenith = Fin 35, sunAzimuth = Fin 140\<rparr>"
  let ?v = "\<lparr>terrain_unit.band = 0, ewRes = Fin 30, nsRes = Fin 30, viewZenith = Fin 10, viewAzimuth = Fin 90\<rparr>"
  let ?w = "[[[Fin 5, Fin 5, Fin 5], [Fin 5, Fin 5, Fin 5], [Fin 5, Fin 5, Fin 5]]]"
  have u: "\<forall>i<3. \<forall>j<3. px ?w 0 i j = Fin 5"
    by (simp add: px_def less_Suc_eq numeral_3_eq_3)
  have f: "fadd (fadd (fadd (Fin 5) (Fin 5)) (Fin 5)) (Fin 5) = Fin 20"
    by (simp add: fadd_def to_float_numeral del: to_float.simps)
  have s: "isnan (ray_angle ?s ?w (Fin 35) (Fin 140))"
    using u f by (simp add: isnan_def ray_angle_flat[where c = 5 and s = 20])
  have v: "isnan (ray_angle ?v ?w (Fin 10) (Fin 90))"
    using u f by (simp add: isnan_def ray_angle_flat[where c = 5 and s = 20])
  have b: "(0::nat) < uint_of_int 1" by (simp add: uint_of_int_def)
  from nan_angle_substituted[of 3 ?s 1 ?v ?w "[Fin 9]"] s v b
  show ?thesis by simp
qed

subsection \<open>The window size\<close>

text \<open>
  Claim C5, as the code has it. The slope and the aspect calculation throw their window
  size error exactly when the window size is not 3; with a window size of 3 they go on
  without it.
\<close>

theorem window_size_error_iff_not_three:
  "(RSGISCalcSlope_calcImageValue slope dataBlock numBands winSize output =
      Inl (RSGISImageCalcException ''Window size must be equal to 3 for the calculate of slope.''))
     = (winSize \<noteq> 3) \<and>
   (RSGISCalcAspect_calcImageValue aspect dataBlock numBands winSize output =
      Inl (RSGISImageCalcException ''Window size must be equal to 3 for the calculate of slope.''))
     = (winSize \<noteq> 3)"
  by (simp add: RSGISCalcSlope_calcImageValue_def RSGISCalcAspect_calcImageValue_def Let_def)

text \<open>A window size of 3 raises no window size error, a window size of 1 does.\<close>

theorem window_size_error_iff_not_three_witness:
  "RSGISCalcAspect_calcImageValue \<lparr>terrain_unit.band = 0, ewRes = Fin 30, nsRes = Fin 30\<rparr>
     [[[Fin 5, Fin 5, Fin 5], [Fin 5, Fin 5, Fin 5], [Fin 5, Fin 5, Fin 5]]] 1 3 [Fin 9]
   \<noteq> Inl (RSGISImageCalcException ''Window size must be equal to 3 for the calculate of slope.'') \<and>
   RSGISCalcSlope_calcImageValue \<lparr>terrain_unit.band = 0, ewRes = Fin 30, nsRes = Fin 30, outType = 0\<rparr>
     [[[Fin 5]]] 1 1 [Fin 9]
   = Inl (RSGISImageCalcException ''Window size must be equal to 3 for the calculate of slope.'')"
  using window_size_error_iff_not_three[of _ _ _ 3] window_size_error_iff_not_three[of _ _ _ 1]
  by simp

text \<open>
  The claim does not hold for every odd window size from 1: a 5x5 window, of an odd size,
  is refused with the window size error.
\<close>

theorem window_size_five_counterexample:
  "odd (5::int) \<and> (1::int) \<le> 5 \<and>
   RSGISCalcSlope_calcImageValue \<lparr>terrain_unit.band = 0, ewRes = Fin 30, nsRes = Fin 30, outType = 0\<rparr>
     [[[Fin 1, Fin 2, Fin 3, Fin 4, Fin 5], [Fin 1, Fin 2, Fin 3, Fin 4, Fin 5],
       [Fin 1, Fin 2, Fin 3, Fin 4, Fin 5], [Fin 1, Fin 2, Fin 3, Fin 4, Fin 5],
       [Fin 1, Fin 2, Fin 3, Fin 4, Fin 5]]] 1 5 [Fin 9]
   = Inl (RSGISImageCalcException ''Window size must be equal to 3 for the calculate of slope.'')"
  by (simp add: RSGISCalcSlope_calcImageValue_def)

subsection \<open>Filling the holes of a DEM\<close>

lemma list3_update: "length xs = 3 \<Longrightarrow> xs[0 := a, Suc 0 := b, 2 := c] = [a, b, c]"
  by (auto simp: length_Suc_conv numeral_3_eq_3 numeral_2_eq_2)

text \<open>The centre of the window is the window size halved, rounded down.\<close>

lemma midPoint_div: "nat \<lfloor>real_of_int w / 2\<rfloor> = nat (w div 2)"
  using floor_divide_of_int_eq[of w 2, where ?'a = real] by simp

text \<open>
  Claim C10. For every window passed to the hole filling calculation with three bands
  (and the three output bands of its constructor): if the centre pixel of band 0 is not
  equal to the hole value the three outputs are the centre pixels of bands 0, 1 and 2;
  if it is equal, the output vector is left as it was; and in either case the object,
  and so the change flag that \<open>changeOccurred\<close> reports, is left as it was.
\<close>

theorem fill_dem_holes_outputs_and_frame:
  assumes "numOutBands self = 3" and "numBands = 3" and "length output = 3"
  shows "let m = nat (winSize div 2) in
         (\<not> fp_eq (px dataBlock 0 m m) (holeValue self) \<longrightarrow>
            RSGISFillDEMHoles_calcImageValue self dataBlock numBands winSize output =
              Inr ([px dataBlock 0 m m, px dataBlock 1 m m, px dataBlock 2 m m], self)) \<and>
         (fp_eq (px dataBlock 0 m m) (holeValue self) \<longrightarrow>
            RSGISFillDEMHoles_calcImageValue self dataBlock numBands winSize output =
              Inr (output, self)) \<and>
         (\<exists>out self'. RSGISFillDEMHoles_calcImageValue self dataBlock numBands winSize output = Inr (out, self') \<and>
            changeOccurred self' = changeOccurred self)"
  using assms
  by (simp add: RSGISFillDEMHoles_calcImageValue_def Let_def midPoint_div list3_update)

text \<open>
  A window with centre pixels 5, 15 and 25: with the hole value 0 they are the outputs,
  with the hole value 5 the outputs 70, 80, 90 stay; the change flag stays what it was.
\<close>

theorem fill_dem_holes_outputs_and_frame_witness:
  "\<not> fp_eq (px [[[Fin 1, Fin 2, Fin 3], [Fin 4, Fin 5, Fin 6], [Fin 7, Fin 8, Fin 9]],
                [[Fin 11, Fin 12, Fin 13], [Fin 14, Fin 15, Fin 16], [Fin 17, Fin 18, Fin 19]],
                [[Fin 21, Fin 22, Fin 23], [Fin 24, Fin 25, Fin 26], [Fin 27, Fin 28, Fin 29]]] 0 1 1) (Fin 0) \<and>
   RSGISFillDEMHoles_calcImageValue (RSGISFillDEMHoles_new (Fin 0) (Fin (- 1)) True)
     [[[Fin 1, Fin 2, Fin 3], [Fin 4, Fin 5, Fin 6], [Fin 7, Fin 8, Fin 9]],
      [[Fin 11, Fin 12, Fin 13], [Fin 14, Fin 15, Fin 16], [Fin 17, Fin 18, Fin 19]],
      [[Fin 21, Fin 22, Fin 23], [Fin 24, Fin 25, Fin 26], [Fin 27, Fin 28, Fin 29]]] 3 3 [NaN, NaN, NaN]
     = Inr ([Fin 5, Fin 15, Fin 25], RSGISFillDEMHoles_new (Fin 0) (Fin (- 1)) True) \<and>
   fp_eq (px [[[Fin 1, Fin 2, Fin 3], [Fin 4, Fin 5, Fin 6], [Fin 7, Fin 8, Fin 9]],
                [[Fin 11, Fin 12, Fin 13], [Fin 14, Fin 15, Fin 16], [Fin 17, Fin 18, Fin 19]],
                [[Fin 21, Fin 22, Fin 23], [Fin 24, Fin 25, Fin 26], [Fin 27, Fin 28, Fin 29]]] 0 1 1) (Fin 5) \<and>
   RSGISFillDEMHoles_calcImageValue (RSGISFillDEMHoles_new (Fin 5) (Fin (- 1)) False)
     [[[Fin 1, Fin 2, Fin 3], [Fin 4, Fin 5, Fin 6], [Fin 7, Fin 8, Fin 9]],
      [[Fin 11, Fin 12, Fin 13], [Fin 14, Fin 15, Fin 16], [Fin 17, Fin 18, Fin 19]],
      [[Fin 21, Fin 22, Fin 23], [Fin 24, Fin 25, Fin 26], [Fin 27, Fin 28, Fin 29]]] 3 3 [Fin 70, Fin 80, Fin 90]
     = Inr ([Fin 70, Fin 80, Fin 90], RSGISFillDEMHoles_new (Fin 5) (Fin (- 1)) False)"
proof -
  let ?w = "[[[Fin 1, Fin 2, Fin 3], [Fin 4, Fin 5, Fin 6], [Fin 7, Fin 8, Fin 9]],
      [[Fin 11, Fin 12, Fin 13], [Fin 14, Fin 15, Fin 16], [Fin 17, Fin 18, Fin 19]],
      [[Fin 21, Fin 22, Fin 23], [Fin 24, Fin 25, Fin 26], [Fin 27, Fin 28, Fin 29]]]"
  have c: "px ?w 0 (Suc 0) (Suc 0) = Fin 5" "px ?w (Suc 0) (Suc 0) (Suc 0) = Fin 15"
    "px ?w 2 (Suc 0) (Suc 0) = Fin 25"
    by (simp_all add: px_def)
  have n: "numOutBands (RSGISFillDEMHoles_new h nd ch) = 3" for h nd ch
    by (simp add: RSGISFillDEMHoles_new_def)
  have h: "holeValue (RSGISFillDEMHoles_new h nd ch) = h" for h nd ch
    by (simp add: RSGISFillDEMHoles_new_def)
  from fill_dem_holes_outputs_and_frame[OF n refl, of "[NaN, NaN, NaN]" 3 ?w "Fin 0" "Fin (- 1)" True]
       fill_dem_holes_outputs_and_frame[OF n refl, of "[Fin 70, Fin 80, Fin 90]" 3 ?w "Fin 5" "Fin (- 1)" False]
  show ?thesis
    by (simp add: Let_def c h fp_eq_def)
qed

section \<open>The statistics unit: entry points it does not support\<close>

text \<open>
  Claim C6. Every call of an entry point that the statistics unit does not support, that
  is every one but \<^verbatim>\<open>calcImageValue(float *bandValues, int numBands)\<close>, throws an
  \<^verbatim>\<open>RSGISImageCalcException\<close> that says so, whatever the arguments and the state of the
  unit; the call returns no accumulators, no output vector and no truth value. (The
  message of one of the nine is misspelt in the source.)
\<close>

theorem unsupported_calls_throw:
  assumes "\<not> supported c"
  shows "\<exists>m. RSGISCalcImageStatistics_call body st c = Inl (RSGISImageCalcException m) \<and>
             (m = ''Not implemented'' \<or> m = ''No implemented'')"
  using assms by (cases c) simp_all

text \<open>A call with a window never reaches the body that accumulates.\<close>

theorem unsupported_calls_throw_witness:
  "\<not> supported (Window_Output [[[Fin 1]]] 1 1 [Fin 0]) \<and>
   RSGISCalcImageStatistics_call (\<lambda>st bandValues numBands. Inr (st + length bandValues)) (0::nat)
     (Window_Output [[[Fin 1]]] 1 1 [Fin 0]) = Inl (RSGISImageCalcException ''Not implemented'')"
  using unsupported_calls_throw[of "Window_Output [[[Fin 1]]] 1 1 [Fin 0]"
      "\<lambda>st bandValues numBands. Inr (st + length bandValues)" "0::nat"]
  by simp

section \<open>Command wrappers: errors of the configuration\<close>





section \<open>Command wrappers: the dataset handles\<close>

lemma track_open: "track_handles hs (map GDALOpen ps @ tr) = track_handles (hs @ ps) tr"
  by (induction ps arbitrary: hs) simp_all

lemma track_close: "track_handles (ps @ hs) (map GDALClose ps) = hs"
  by (induction ps arbitrary: hs) simp_all

lemma track_open_run_close:
  "open_handles (map GDALOpen ps @ CalcImage ds out # map GDALClose ps) = []"
  using track_close[of ps "[]"] by (simp add: open_handles_def track_open)

lemma loop_success_trace:
  assumes "fst (executeConvertLandsat2Radiance_loop files bands tot acc tr) = Inr offs"
  shows "snd (executeConvertLandsat2Radiance_loop files bands tot acc tr) =
           tr @ map GDALOpen (map imagePath bands)"
  using assms
proof (induction bands arbitrary: tot acc tr)
  case Nil
  then show ?case by simp
next
  case (Cons b bands)
  then show ?case
    by (auto simp: Let_def split: option.splits if_splits)
qed

text \<open>
  On normal completion \<^verbatim>\<open>executeConvertLandsat2Radiance\<close> has closed every dataset it
  opened.
\<close>

lemma normal_completion_closes_all:
  assumes "fst (executeConvertLandsat2Radiance files calcImage outputImage gdalFormat bands) = Inr ()"
  shows "open_handles (snd (executeConvertLandsat2Radiance files calcImage outputImage gdalFormat bands)) = []"
proof (cases "executeConvertLandsat2Radiance_loop files bands 0 [] []")
  case (Pair r tr)
  with assms obtain offs where r: "r = Inr offs"
    by (cases r) (auto simp: executeConvertLandsat2Radiance_def)
  with Pair loop_success_trace[of files bands 0 "[]" "[]" offs]
  have tr: "tr = map GDALOpen (map imagePath bands)" by simp
  from assms Pair r have "calcImage (map imagePath bands) outputImage = None"
    by (auto simp: executeConvertLandsat2Radiance_def Let_def split: option.splits)
  with Pair r tr have "snd (executeConvertLandsat2Radiance files calcImage outputImage gdalFormat bands) =
      map GDALOpen (map imagePath bands) @ CalcImage (map imagePath bands) outputImage #
        map GDALClose (map imagePath bands)"
    by (simp add: executeConvertLandsat2Radiance_def Let_def)
  then show ?thesis by (simp only: track_open_run_close)
qed

text \<open>
  Claim C2 asks the same of every error exit. The code does not do it: when the second
  image of \<^verbatim>\<open>executeConvertLandsat2Radiance\<close> cannot be opened, the handle of the
  first stays open when the exception reaches the caller; when the band counts of
  \<^verbatim>\<open>executeLandsatTMCloudFMask\<close> disagree, all four handles stay open, the calls that
  would close them standing after the \<^verbatim>\<open>throw\<close>; and when the engine throws in the
  middle of \<^verbatim>\<open>executeConvertRadiance2TOARefl\<close>, which does close its image before it
  throws for a wrong number of irradiance values, the image stays open.
\<close>

theorem error_exit_leaves_handles_open:
  "executeConvertLandsat2Radiance [''b1.tif'' \<mapsto> \<lparr>RasterCount = 1, RasterDataType = GDT_Byte\<rparr>]
      (\<lambda>datasets out. None) ''rad.kea'' ''KEA''
      [\<lparr>band = 1, lMax = Fin 193, lMin = Fin 0, qCalMax = Fin 255, qCalMin = Fin 1,
        imagePath = ''b1.tif'', bandName = ''Blue''\<rparr>,
       \<lparr>band = 1, lMax = Fin 365, lMin = Fin 0, qCalMax = Fin 255, qCalMin = Fin 1,
        imagePath = ''b2.tif'', bandName = ''Green''\<rparr>] =
     (Inl (RSGISCmdException ''Could not open image b2.tif''), [GDALOpen ''b1.tif'']) \<and>
   open_handles [GDALOpen ''b1.tif''] = [''b1.tif''] \<and>
   executeLandsatTMCloudFMask
      [''toa.kea'' \<mapsto> \<lparr>RasterCount = 6, RasterDataType = GDT_UInt16\<rparr>,
       ''thermal.kea'' \<mapsto> \<lparr>RasterCount = 1, RasterDataType = GDT_UInt16\<rparr>,
       ''saturate.kea'' \<mapsto> \<lparr>RasterCount = 6, RasterDataType = GDT_Byte\<rparr>,
       ''valid.kea'' \<mapsto> \<lparr>RasterCount = 1, RasterDataType = GDT_Byte\<rparr>]
      None ''toa.kea'' ''thermal.kea'' ''saturate.kea'' ''valid.kea'' ''clouds.kea'' =
     (Inl (RSGISCmdException
        ''The number of saturation bands is not equal to the number of refl and thermal bands.''),
      [GDALOpen ''toa.kea'', GDALOpen ''thermal.kea'', GDALOpen ''saturate.kea'', GDALOpen ''valid.kea'']) \<and>
   open_handles [GDALOpen ''toa.kea'', GDALOpen ''thermal.kea'', GDALOpen ''saturate.kea'', GDALOpen ''valid.kea'']
     = [''toa.kea'', ''thermal.kea'', ''saturate.kea'', ''valid.kea''] \<and>
   executeConvertRadiance2TOARefl [''rad.kea'' \<mapsto> \<lparr>RasterCount = 6, RasterDataType = GDT_Float32\<rparr>]
      (\<lambda>datasets out. Some (RSGISImageCalcException ''Could not write to the output image''))
      ''rad.kea'' ''toa.kea'' 6 =
     (Inl (RSGISCmdException ''Could not write to the output image''),
      [GDALOpen ''rad.kea'', CalcImage [''rad.kea''] ''toa.kea'']) \<and>
   open_handles [GDALOpen ''rad.kea'', CalcImage [''rad.kea''] ''toa.kea''] = [''rad.kea'']"
  by (simp add: executeConvertLandsat2Radiance_def executeLandsatTMCloudFMask_def
        executeConvertRadiance2TOARefl_def open_handles_def)

end
